theory Spec2Isabelle
  imports Complex_Main "HOL-Library.Signed_Division"
begin

section \<open>The ArUco head tracker: data model\<close>

text \<open>
  The development embeds \<^verbatim>\<open>tracker-aruco/ftnoir_tracker_aruco.cpp\<close>.
  C++ \<^verbatim>\<open>double\<close> and \<^verbatim>\<open>float\<close> values are modelled as \<^typ>\<open>real\<close>: the
  properties below are about which value is stored where, which comparison guards
  which update and how bounds are clamped, so rounding, infinities and NaN are
  left out of the model. C++ \<^verbatim>\<open>int\<close> is \<^typ>\<open>int\<close>: on its integers the code only
  compares, takes minima and maxima, subtracts one from a frame dimension and subtracts
  two coordinates already clamped into the frame, and none of these leaves the 32-bit
  range. The one place where the width of \<^verbatim>\<open>int\<close> shows is the conversion
  \<^verbatim>\<open>int(proj.x)\<close> of a projected coordinate: see \<open>to_int\<close>.
\<close>

type_synonym Point2f = "real \<times> real"
type_synonym Point3f = "real \<times> real \<times> real"
type_synonym Vec3d = "real \<times> real \<times> real"

text \<open>\<^verbatim>\<open>cv::Matx33d\<close> keeps its nine entries row by row: entry \<open>(i, j)\<close> is number \<open>3 * i + j\<close>.\<close>

type_synonym Matx33d = "real list"

text \<open>\<^verbatim>\<open>cv::Rect\<close>: the fields \<^verbatim>\<open>x\<close>, \<^verbatim>\<open>y\<close>, \<^verbatim>\<open>width\<close>, \<^verbatim>\<open>height\<close>.\<close>

record Rect =
  rect_x :: int
  rect_y :: int
  rect_width :: int
  rect_height :: int

definition mk_Rect :: "int \<Rightarrow> int \<Rightarrow> int \<Rightarrow> int \<Rightarrow> Rect" where
  "mk_Rect a b w h = \<lparr>rect_x = a, rect_y = b, rect_width = w, rect_height = h\<rparr>"

text \<open>The rectangle that the constructor and every failed cycle store.\<close>

definition sentinel_roi :: Rect where
  "sentinel_roi = mk_Rect 65535 65535 0 0"

fun vec_at :: "Vec3d \<Rightarrow> nat \<Rightarrow> real" where
  "vec_at (a, b, c) i = (if i = 0 then a else if i = 1 then b else c)"

definition mat_set :: "Matx33d \<Rightarrow> nat \<Rightarrow> nat \<Rightarrow> real \<Rightarrow> Matx33d" where
  "mat_set m i j v = m[3 * i + j := v]"

definition eye :: Matx33d where
  "eye = [1, 0, 0, 0, 1, 0, 0, 0, 1]"

text \<open>
  Modelled from the spec: the enumeration \<^verbatim>\<open>Axis\<close>, which indexes the six entries of
  the pose and is declared in the plugin API header, not among the sources. The three
  translations are the entries 0, 1, 2 that the loop of \<^verbatim>\<open>set_rmat\<close> writes; the
  three angles follow them.
\<close>

definition TX :: nat where "TX = 0"
definition TY :: nat where "TY = 1"
definition TZ :: nat where "TZ = 2"
definition Yaw :: nat where "Yaw = 3"
definition Pitch :: nat where "Pitch = 4"
definition Roll :: nat where "Roll = 5"

text \<open>
  \<^verbatim>\<open>settings s\<close>: the configuration values the tracker and the dialog read and write.
\<close>

record settings =
  resolution :: int
  force_fps :: int
  fov :: int
  headpos_x :: real
  headpos_y :: real
  headpos_z :: real

text \<open>
  The class constants \<^verbatim>\<open>RC\<close>, \<^verbatim>\<open>size_min\<close>, \<^verbatim>\<open>size_max\<close> and
  \<^verbatim>\<open>c_search_window\<close> are declared in the header, which is not among the sources:
  they are parameters of the model.
\<close>

record tracker_consts =
  RC :: real
  size_min :: real
  size_max :: real
  c_search_window :: real

text \<open>
  The library routines the capture loop calls, as functions of the arguments the code
  passes: four of OpenCV and \<^verbatim>\<open>atan\<close>, \<^verbatim>\<open>tan\<close>, \<^verbatim>\<open>sqrt\<close> of the C++ library.
  \<^verbatim>\<open>solvePnP\<close> returns its success flag with the rotation and translation vectors it
  wrote. Every call is taken to return: an exception raised inside a library is outside
  the model. The last field belongs to the platform rather than to a library:
  \<open>int_outside v\<close> is the \<^verbatim>\<open>int\<close> that the conversion of a floating value \<open>v\<close>
  stores when the truncated value is not a 32-bit integer, a case that C++ leaves
  undefined (on x86-64 it is the smallest \<^verbatim>\<open>int\<close>, whatever \<open>v\<close>).
\<close>

record cv =
  solvePnP :: "Point3f list \<Rightarrow> Point2f list \<Rightarrow> Matx33d \<Rightarrow> bool \<times> Vec3d \<times> Vec3d"
  projectPoints :: "Point3f list \<Rightarrow> Vec3d \<Rightarrow> Vec3d \<Rightarrow> Matx33d \<Rightarrow> Point2f list"
  Rodrigues :: "Vec3d \<Rightarrow> Matx33d"
  RQDecomp3x3 :: "Matx33d \<Rightarrow> Vec3d"
  std_atan :: "real \<Rightarrow> real"
  std_tan :: "real \<Rightarrow> real"
  std_sqrt :: "real \<Rightarrow> real"
  int_outside :: "real \<Rightarrow> int"

text \<open>
  What one pass of the loop receives from outside: whether \<^verbatim>\<open>camera.read\<close>
  succeeded and the size of the image it left in \<^verbatim>\<open>color\<close>, the seconds
  \<^verbatim>\<open>fps_timer\<close> measured, the answer of the marker detector on this frame for given
  size bounds and crop (\<open>None\<close>: the whole grayscale image), and the settings in force.
\<close>

record frame_in =
  read_ok :: bool
  frame_cols :: int
  frame_rows :: int
  elapsed_seconds :: real
  detect :: "real \<Rightarrow> real \<Rightarrow> Rect option \<Rightarrow> Point2f list list"
  cfg :: settings

text \<open>The calls that leave the tracker, recorded in the order they are made.\<close>

datatype event =
    CameraRead
  | SetMinMaxSize real real
  | DetectRoi Rect
  | DetectFull
  | SolvePnP
  | DrawAr bool
  | UpdateImage

text \<open>
  The members of \<^verbatim>\<open>aruco_tracker\<close> that the loop reads and writes. \<open>r_m\<close> and
  \<open>t_m\<close> are the members \<^verbatim>\<open>r\<close> and \<^verbatim>\<open>t\<close>; \<open>color\<close> and \<open>grayscale\<close>
  keep the columns and rows of the two images; \<open>camera_props\<close> are the properties set
  on the capture device, \<open>trace\<close> the calls made so far.
\<close>

record aruco_tracker =
  fps :: real
  obj_points :: "Point3f list"
  intrinsics :: Matx33d
  rmat :: Matx33d
  roi_points :: "Point3f list"
  last_roi :: Rect
  markers :: "Point2f list list"
  rvec :: Vec3d
  tvec :: Vec3d
  euler :: Vec3d
  roi_projection :: "Point2f list"
  repr2 :: "Point2f list"
  pose :: "real list"
  r_m :: Matx33d
  t_m :: Vec3d
  color :: "int \<times> int"
  grayscale :: "int \<times> int"
  camera_props :: "(string \<times> int) list"
  trace :: "event list"

definition emit :: "event \<Rightarrow> aruco_tracker \<Rightarrow> aruco_tracker" where
  "emit e st = st\<lparr>trace := trace st @ [e]\<rparr>"

definition mat_cols :: "int \<times> int \<Rightarrow> int" where
  "mat_cols m = fst m"

definition mat_rows :: "int \<times> int \<Rightarrow> int" where
  "mat_rows m = snd m"

section \<open>Detection\<close>

text \<open>
  \<^verbatim>\<open>int(proj.x)\<close>: the conversion of a floating value to the 32-bit \<^verbatim>\<open>int\<close> drops
  the fraction when the result lies between \<open>- 2147483648\<close> and \<open>2147483647\<close>, and is
  what the platform gives otherwise.
\<close>

definition to_int :: "cv \<Rightarrow> real \<Rightarrow> int" where
  "to_int lib v =
     (if - 2147483649 < v \<and> v < 2147483648
      then (if 0 \<le> v then \<lfloor>v\<rfloor> else \<lceil>v\<rceil>)
      else int_outside lib v)"

text \<open>The loop body of \<^verbatim>\<open>detect_with_roi\<close>: \<^verbatim>\<open>p.x += last_roi.x; p.y += last_roi.y\<close>.\<close>

definition offset_corner :: "Rect \<Rightarrow> Point2f \<Rightarrow> Point2f" where
  "offset_corner roi p = (fst p + of_int (rect_x roi), snd p + of_int (rect_y roi))"

definition offset_marker :: "Rect \<Rightarrow> Point2f list \<Rightarrow> Point2f list" where
  "offset_marker roi m =
     foldl (\<lambda>m' i. m'[i := offset_corner roi (m' ! i)]) m [0 ..< 4]"

definition roi_min_size :: "tracker_consts \<Rightarrow> int \<Rightarrow> int \<Rightarrow> real" where
  "roi_min_size c gcols w = min 1 (max (1 / 100) (size_min c * of_int gcols / of_int w))"

definition roi_max_size :: "tracker_consts \<Rightarrow> int \<Rightarrow> int \<Rightarrow> real" where
  "roi_max_size c gcols w = max (1 / 100) (min 1 (size_max c * of_int gcols / of_int w))"

definition one_quad :: "Point2f list list \<Rightarrow> bool" where
  "one_quad ms = (length ms = 1 \<and> length (ms ! 0) = 4)"

definition detect_with_roi :: "tracker_consts \<Rightarrow> frame_in \<Rightarrow> aruco_tracker \<Rightarrow> bool \<times> aruco_tracker" where
  "detect_with_roi c fi st =
     (let fail = (\<lambda>s. (False, s\<lparr>last_roi := sentinel_roi\<rparr>)) in
      if rect_width (last_roi st) > 1 \<and> rect_height (last_roi st) > 1 then
        (let lo = roi_min_size c (mat_cols (grayscale st)) (rect_width (last_roi st));
             hi = roi_max_size c (mat_cols (grayscale st)) (rect_width (last_roi st));
             st1 = emit (SetMinMaxSize lo hi) st;
             st2 = (emit (DetectRoi (last_roi st1)) st1)
                     \<lparr>markers := detect fi lo hi (Some (last_roi st1))\<rparr>
         in if one_quad (markers st2)
            then (True, st2\<lparr>markers := (markers st2)[0 := offset_marker (last_roi st2) (markers st2 ! 0)]\<rparr>)
            else fail st2)
      else fail st)"

definition detect_without_roi :: "tracker_consts \<Rightarrow> frame_in \<Rightarrow> aruco_tracker \<Rightarrow> bool \<times> aruco_tracker" where
  "detect_without_roi c fi st =
     (let st1 = emit (SetMinMaxSize (size_min c) (size_max c)) st;
          st2 = (emit DetectFull st1)\<lparr>markers := detect fi (size_min c) (size_max c) None\<rparr>
      in (one_quad (markers st2), st2))"

section \<open>The search region\<close>

definition clamp_last_roi :: "aruco_tracker \<Rightarrow> aruco_tracker" where
  "clamp_last_roi st =
     (let r0 = last_roi st;
          cols = mat_cols (color st);
          rows = mat_rows (color st);
          r1 = (if rect_x r0 < 0 then r0\<lparr>rect_x := 0\<rparr> else r0);
          r2 = (if rect_y r1 < 0 then r1\<lparr>rect_y := 0\<rparr> else r1);
          r3 = (if rect_width r2 < 1 then r2\<lparr>rect_width := 1\<rparr> else r2);
          r4 = (if rect_height r3 < 1 then r3\<lparr>rect_height := 1\<rparr> else r3);
          r5 = (if rect_x r4 \<ge> cols - 1 then r4\<lparr>rect_x := cols - 1\<rparr> else r4);
          r6 = (if rect_width r5 \<ge> cols - 1 then r5\<lparr>rect_width := cols - 1\<rparr> else r5);
          r7 = (if rect_y r6 \<ge> rows - 1 then r6\<lparr>rect_y := rows - 1\<rparr> else r6);
          r8 = (if rect_height r7 \<ge> rows - 1 then r7\<lparr>rect_height := rows - 1\<rparr> else r7);
          r9 = r8\<lparr>rect_width := rect_width r8 - rect_x r8\<rparr>;
          r10 = r9\<lparr>rect_height := rect_height r9 - rect_y r9\<rparr>
      in st\<lparr>last_roi := r10\<rparr>)"

text \<open>
  One pass of the loop of \<^verbatim>\<open>set_roi_from_projection\<close>: while it runs, the fields
  \<^verbatim>\<open>width\<close> and \<^verbatim>\<open>height\<close> hold the largest coordinates seen.
\<close>

definition roi_accumulate :: "cv \<Rightarrow> Rect \<Rightarrow> Point2f \<Rightarrow> Rect" where
  "roi_accumulate lib roi proj =
     (let min_x = min (to_int lib (fst proj)) (rect_x roi);
          min_y = min (to_int lib (snd proj)) (rect_y roi);
          max_x = max (to_int lib (fst proj)) (rect_width roi);
          max_y = max (to_int lib (snd proj)) (rect_height roi)
      in roi\<lparr>rect_x := min_x, rect_y := min_y, rect_width := max_x, rect_height := max_y\<rparr>)"

definition set_roi_from_projection :: "cv \<Rightarrow> aruco_tracker \<Rightarrow> aruco_tracker" where
  "set_roi_from_projection lib st =
     (let r0 = mk_Rect (mat_cols (color st) - 1) (mat_rows (color st) - 1) 0 0;
          r1 = foldl (\<lambda>roi i. roi_accumulate lib roi (roi_projection st ! i)) r0 [0 ..< 4]
      in clamp_last_roi (st\<lparr>last_roi := r1\<rparr>))"

text \<open>
  \<^verbatim>\<open>set_points\<close>: the corners of the marker model, moved by the head position.
\<close>

definition marker_size :: real where
  "marker_size = 40"

definition set_points :: "frame_in \<Rightarrow> aruco_tracker \<Rightarrow> aruco_tracker" where
  "set_points fi st =
     (let hx = headpos_x (cfg fi); hy = headpos_y (cfg fi); hz = headpos_z (cfg fi);
          x1 = 1; x2 = 2; x3 = 3; x4 = 0;
          p1 = (obj_points st)[x1 := (- marker_size + hx, - marker_size + hy, 0 + hz)];
          p2 = p1[x2 := (marker_size + hx, - marker_size + hy, 0 + hz)];
          p3 = p2[x3 := (marker_size + hx, marker_size + hy, 0 + hz)];
          p4 = p3[x4 := (- marker_size + hx, marker_size + hy, 0 + hz)]
      in st\<lparr>obj_points := p4\<rparr>)"

definition point_sub :: "Point3f \<Rightarrow> Point3f \<Rightarrow> Point3f" where
  "point_sub p q = (fst p - fst q, fst (snd p) - fst (snd q), snd (snd p) - snd (snd q))"

definition point_scale :: "Point3f \<Rightarrow> real \<Rightarrow> Point3f" where
  "point_scale p k = (fst p * k, fst (snd p) * k, snd (snd p) * k)"

definition set_last_roi :: "cv \<Rightarrow> tracker_consts \<Rightarrow> frame_in \<Rightarrow> aruco_tracker \<Rightarrow> aruco_tracker" where
  "set_last_roi lib c fi st =
     (let st1 = st\<lparr>roi_projection := []\<rparr>;
          h = (headpos_x (cfg fi), headpos_y (cfg fi), headpos_z (cfg fi));
          pts = foldl (\<lambda>ps i. ps[i := point_scale (point_sub (obj_points st1 ! i) h) (c_search_window c)])
                  (roi_points st1) [0 ..< 4];
          st2 = st1\<lparr>roi_points := pts\<rparr>;
          st3 = st2\<lparr>roi_projection :=
                  projectPoints lib (roi_points st2) (rvec st2) (tvec st2) (intrinsics st2)\<rparr>
      in set_roi_from_projection lib st3)"

definition draw_centroid :: "cv \<Rightarrow> aruco_tracker \<Rightarrow> aruco_tracker" where
  "draw_centroid lib st =
     (let st1 = st\<lparr>repr2 := []\<rparr>
      in st1\<lparr>repr2 := projectPoints lib [(0, 0, 0)] (rvec st1) (tvec st1) (intrinsics st1)\<rparr>)"

section \<open>The pose store\<close>

definition set_rmat :: "cv \<Rightarrow> aruco_tracker \<Rightarrow> aruco_tracker" where
  "set_rmat lib st =
     (let st1 = st\<lparr>rmat := Rodrigues lib (rvec st)\<rparr>;
          st2 = st1\<lparr>euler := RQDecomp3x3 lib (rmat st1)\<rparr>;
          st3 = st2\<lparr>pose := foldl (\<lambda>p i. p[i := vec_at (tvec st2) i * (1 / 10)]) (pose st2) [0 ..< 3]\<rparr>;
          st4 = st3\<lparr>pose := (pose st3)[Yaw := vec_at (euler st3) 1]\<rparr>;
          st5 = st4\<lparr>pose := (pose st4)[Pitch := - vec_at (euler st4) 0]\<rparr>;
          st6 = st5\<lparr>pose := (pose st5)[Roll := vec_at (euler st5) 2]\<rparr>;
          st7 = st6\<lparr>r_m := rmat st6\<rparr>
      in st7\<lparr>t_m := (vec_at (tvec st7) 0, - vec_at (tvec st7) 1, vec_at (tvec st7) 2)\<rparr>)"

text \<open>\<^verbatim>\<open>data\<close> copies the pose into the caller's array.\<close>

definition data :: "aruco_tracker \<Rightarrow> real list \<Rightarrow> real list" where
  "data st d =
     (let d1 = d[Yaw := pose st ! Yaw];
          d2 = d1[Pitch := pose st ! Pitch];
          d3 = d2[Roll := pose st ! Roll];
          d4 = d3[TX := pose st ! TX];
          d5 = d4[TY := pose st ! TY]
      in d5[TZ := pose st ! TZ])"

definition getRT :: "aruco_tracker \<Rightarrow> Matx33d \<times> Vec3d" where
  "getRT st = (r_m st, t_m st)"

section \<open>Camera, intrinsics and frame rate\<close>

definition resolution_choices :: "(int \<times> int) list" where
  "resolution_choices = [(640, 480), (320, 240), (0, 0)]"

definition forced_fps :: "int \<Rightarrow> int" where
  "forced_fps k =
     (if k = 1 then 30 else if k = 2 then 60 else if k = 3 then 75
      else if k = 4 then 125 else if k = 5 then 200 else 0)"

text \<open>
  \<^verbatim>\<open>open_camera\<close>; \<open>is_opened\<close> is the answer of \<^verbatim>\<open>camera.isOpened()\<close> on the
  new capture device.
\<close>

definition open_camera :: "settings \<Rightarrow> bool \<Rightarrow> aruco_tracker \<Rightarrow> bool \<times> aruco_tracker" where
  "open_camera s is_opened st =
     (let rint = (if resolution s < 0 \<or> resolution s \<ge> int (length resolution_choices)
                  then 0 else resolution s);
          res = resolution_choices ! nat rint;
          fps' = forced_fps (force_fps s);
          st1 = st\<lparr>camera_props := []\<rparr>;
          st2 = (if fst res \<noteq> 0
                 then st1\<lparr>camera_props := camera_props st1 @
                        [(''CAP_PROP_FRAME_WIDTH'', fst res), (''CAP_PROP_FRAME_HEIGHT'', snd res)]\<rparr>
                 else st1);
          st3 = (if fps' \<noteq> 0
                 then st2\<lparr>camera_props := camera_props st2 @ [(''CAP_PROP_FPS'', fps')]\<rparr>
                 else st2)
      in if \<not> is_opened then (False, st3) else (True, st3))"

text \<open>The constant \<^verbatim>\<open>pi\<close> of \<^verbatim>\<open>set_intrinsics\<close>, written \<^verbatim>\<open>3.1415926f\<close>.\<close>

definition pi_f :: real where
  "pi_f = 31415926 / 10000000"

definition set_intrinsics :: "cv \<Rightarrow> frame_in \<Rightarrow> aruco_tracker \<Rightarrow> aruco_tracker" where
  "set_intrinsics lib fi st =
     (let w = mat_cols (grayscale st); h = mat_rows (grayscale st);
          diag_fov = of_int (fov (cfg fi)) * pi_f / 180;
          fov_w = 2 * std_atan lib (std_tan lib (diag_fov / 2)
                    / std_sqrt lib (1 + of_int h / of_int w * of_int h / of_int w));
          fov_h = 2 * std_atan lib (std_tan lib (diag_fov / 2)
                    / std_sqrt lib (1 + of_int w / of_int h * of_int w / of_int h));
          focal_length_w = (1 / 2) * of_int w / std_tan lib ((1 / 2) * fov_w);
          focal_length_h = (1 / 2) * of_int h / std_tan lib ((1 / 2) * fov_h);
          m1 = mat_set (intrinsics st) 0 0 focal_length_w;
          m2 = mat_set m1 0 2 (of_int (mat_cols (grayscale st) sdiv 2));
          m3 = mat_set m2 1 1 focal_length_h;
          m4 = mat_set m3 1 2 (of_int (mat_rows (grayscale st) sdiv 2))
      in st\<lparr>intrinsics := m4\<rparr>)"

definition update_fps :: "tracker_consts \<Rightarrow> frame_in \<Rightarrow> aruco_tracker \<Rightarrow> aruco_tracker" where
  "update_fps c fi st =
     (let dt = elapsed_seconds fi;
          alpha = dt / (dt + RC c)
      in if dt > 1 / 1000
         then (let st1 = st\<lparr>fps := fps st * (1 - alpha)\<rparr>
               in st1\<lparr>fps := fps st1 + alpha * (1 / dt + 8 / 10)\<rparr>)
         else st)"

text \<open>
  \<^verbatim>\<open>draw_ar\<close> only paints on the frame shown to the user: the model records the call
  and its argument.
\<close>

definition draw_ar :: "bool \<Rightarrow> aruco_tracker \<Rightarrow> aruco_tracker" where
  "draw_ar ok st = emit (DrawAr ok) st"

section \<open>The capture loop\<close>

text \<open>
  The part of one pass that follows detection: the pose solve and what depends on it,
  or the label \<^verbatim>\<open>fail\<close>.
\<close>

definition solve_or_fail :: "cv \<Rightarrow> tracker_consts \<Rightarrow> frame_in \<Rightarrow> bool \<Rightarrow> aruco_tracker \<Rightarrow> aruco_tracker" where
  "solve_or_fail lib c fi ok st =
     (let fail = (\<lambda>s. s\<lparr>last_roi := sentinel_roi\<rparr>) in
      if ok then
        (let st1 = set_points fi st;
             res = solvePnP lib (obj_points st1) (markers st1 ! 0) (intrinsics st1);
             st2 = (emit SolvePnP st1)\<lparr>rvec := fst (snd res), tvec := snd (snd res)\<rparr>
         in if \<not> fst res then fail st2
            else set_rmat lib (draw_centroid lib (set_last_roi lib c fi st2)))
      else fail st)"

text \<open>
  \<open>detect_marker\<close> is the expression
  \<^verbatim>\<open>detect_with_roi() || detect_without_roi()\<close>: the second call is made only when the
  first returns false.
\<close>

definition detect_marker :: "tracker_consts \<Rightarrow> frame_in \<Rightarrow> aruco_tracker \<Rightarrow> bool \<times> aruco_tracker" where
  "detect_marker c fi st =
     (let res = detect_with_roi c fi st
      in if fst res then (True, snd res) else detect_without_roi c fi (snd res))"

text \<open>
  One pass of the \<^verbatim>\<open>while\<close> loop, in three parts. \<open>camera_read\<close> is
  \<^verbatim>\<open>camera.read(color)\<close>, which writes the image whether it succeeds or not;
  \<open>prepare_frame\<close> runs from \<^verbatim>\<open>cvtColor\<close> to \<^verbatim>\<open>markers.clear()\<close>;
  \<open>finish_frame\<close> is the rest of the pass. A failed read goes on to the next pass.
\<close>

definition camera_read :: "frame_in \<Rightarrow> aruco_tracker \<Rightarrow> aruco_tracker" where
  "camera_read fi st = (emit CameraRead st)\<lparr>color := (frame_cols fi, frame_rows fi)\<rparr>"

definition prepare_frame :: "cv \<Rightarrow> tracker_consts \<Rightarrow> frame_in \<Rightarrow> aruco_tracker \<Rightarrow> aruco_tracker" where
  "prepare_frame lib c fi st =
     (let st1 = st\<lparr>grayscale := color st\<rparr>;
          st2 = set_intrinsics lib fi st1;
          st3 = update_fps c fi st2
      in st3\<lparr>markers := []\<rparr>)"

definition finish_frame :: "cv \<Rightarrow> tracker_consts \<Rightarrow> frame_in \<Rightarrow> aruco_tracker \<Rightarrow> aruco_tracker" where
  "finish_frame lib c fi st =
     (let res = detect_marker c fi st;
          ok = fst res;
          st1 = solve_or_fail lib c fi ok (snd res);
          st2 = draw_ar ok st1
      in if mat_rows (color st2) > 0 then emit UpdateImage st2 else st2)"

definition iteration :: "cv \<Rightarrow> tracker_consts \<Rightarrow> aruco_tracker \<Rightarrow> frame_in \<Rightarrow> aruco_tracker" where
  "iteration lib c st fi =
     (let st0 = camera_read fi st
      in if \<not> read_ok fi then st0
         else finish_frame lib c fi (prepare_frame lib c fi st0))"

text \<open>
  \<^verbatim>\<open>run\<close>. The loop goes on until another thread sets \<^verbatim>\<open>stop\<close>; \<open>frames\<close> are
  the inputs of the passes made before that.
\<close>

definition run :: "cv \<Rightarrow> tracker_consts \<Rightarrow> settings \<Rightarrow> bool \<Rightarrow> frame_in list \<Rightarrow> aruco_tracker \<Rightarrow> aruco_tracker" where
  "run lib c s is_opened frames st =
     (let res = open_camera s is_opened st
      in if \<not> fst res then snd res
         else foldl (iteration lib c) (snd res) frames)"

text \<open>
  The constructor, followed by the assignments of \<^verbatim>\<open>start_tracker\<close>. The array
  \<^verbatim>\<open>pose\<close> of six numbers is not initialised by the constructor: \<open>p0 i\<close> is
  what its entry \<open>i\<close> holds then.
\<close>

definition new_aruco_tracker :: "(nat \<Rightarrow> real) \<Rightarrow> aruco_tracker" where
  "new_aruco_tracker p0 =
     \<lparr>fps = 0, obj_points = replicate 4 (0, 0, 0), intrinsics = eye, rmat = eye,
      roi_points = replicate 4 (0, 0, 0), last_roi = mk_Rect 65535 65535 0 0,
      markers = [], rvec = (0, 0, 0), tvec = (0, 0, 0), euler = (0, 0, 0),
      roi_projection = [], repr2 = [], pose = map p0 [0 ..< 6], r_m = replicate 9 0, t_m = (0, 0, 0),
      color = (0, 0), grayscale = (0, 0), camera_props = [], trace = []\<rparr>"

definition start_tracker :: "aruco_tracker \<Rightarrow> aruco_tracker" where
  "start_tracker st = st\<lparr>pose := foldl (\<lambda>p i. p[i := 0]) (pose st) [0 ..< 6]\<rparr>"

section \<open>The calibration dialog\<close>

text \<open>
  The class of \<^verbatim>\<open>calibrator\<close> is not among the sources: its state is a type
  parameter, and its three member functions are parameters of the model.
\<close>

record 'acc calibrator_ops =
  calib_reset :: "'acc \<Rightarrow> 'acc"
  calib_update :: "'acc \<Rightarrow> Matx33d \<Rightarrow> Vec3d \<Rightarrow> 'acc"
  calib_get_estimate :: "'acc \<Rightarrow> Vec3d"

text \<open>
  The members of \<^verbatim>\<open>aruco_dialog\<close>: the settings \<^verbatim>\<open>s\<close>, whether
  \<^verbatim>\<open>calib_timer\<close> is active, the calibrator, and the tracker the dialog points to
  (\<open>None\<close>: the null pointer).
\<close>

record 'acc aruco_dialog =
  dlg_s :: settings
  calib_timer_active :: bool
  calibrator :: 'acc
  tracker :: "aruco_tracker option"

definition cleanupCalib :: "'acc aruco_dialog \<Rightarrow> 'acc aruco_dialog" where
  "cleanupCalib d = (if calib_timer_active d then d\<lparr>calib_timer_active := False\<rparr> else d)"

definition toggleCalibrate :: "'acc calibrator_ops \<Rightarrow> 'acc aruco_dialog \<Rightarrow> 'acc aruco_dialog" where
  "toggleCalibrate ops d =
     (if \<not> calib_timer_active d then
        (let d1 = d\<lparr>dlg_s := (dlg_s d)\<lparr>headpos_x := 0\<rparr>\<rparr>;
             d2 = d1\<lparr>dlg_s := (dlg_s d1)\<lparr>headpos_y := 0\<rparr>\<rparr>;
             d3 = d2\<lparr>dlg_s := (dlg_s d2)\<lparr>headpos_z := 0\<rparr>\<rparr>;
             d4 = d3\<lparr>calibrator := calib_reset ops (calibrator d3)\<rparr>
         in d4\<lparr>calib_timer_active := True\<rparr>)
      else
        (let d1 = cleanupCalib d;
             pos = calib_get_estimate ops (calibrator d1);
             d2 = d1\<lparr>dlg_s := (dlg_s d1)\<lparr>headpos_x := vec_at pos 0\<rparr>\<rparr>;
             d3 = d2\<lparr>dlg_s := (dlg_s d2)\<lparr>headpos_y := vec_at pos 1\<rparr>\<rparr>
         in d3\<lparr>dlg_s := (dlg_s d3)\<lparr>headpos_z := vec_at pos 2\<rparr>\<rparr>))"

text \<open>The slot of the timer: one sampling tick.\<close>

definition update_tracker_calibration :: "'acc calibrator_ops \<Rightarrow> 'acc aruco_dialog \<Rightarrow> 'acc aruco_dialog" where
  "update_tracker_calibration ops d =
     (case tracker d of
        Some trk \<Rightarrow>
          if calib_timer_active d
          then (let rt = getRT trk
                in d\<lparr>calibrator := calib_update ops (calibrator d) (fst rt) (snd rt)\<rparr>)
          else d
      | None \<Rightarrow> d)"

section \<open>Notions used in the statements\<close>

text \<open>The calls made between two states of the tracker.\<close>

definition new_events :: "aruco_tracker \<Rightarrow> aruco_tracker \<Rightarrow> event list" where
  "new_events st st' = drop (length (trace st)) (trace st')"

text \<open>The state in which a pass with a successful read reaches the detection step.\<close>

definition at_detection :: "cv \<Rightarrow> tracker_consts \<Rightarrow> frame_in \<Rightarrow> aruco_tracker \<Rightarrow> aruco_tracker" where
  "at_detection lib c fi st = prepare_frame lib c fi (camera_read fi st)"

text \<open>What \<^verbatim>\<open>solvePnP\<close> answers when the loop calls it in state \<open>st\<close>.\<close>

definition pnp_result :: "cv \<Rightarrow> frame_in \<Rightarrow> aruco_tracker \<Rightarrow> bool \<times> Vec3d \<times> Vec3d" where
  "pnp_result lib fi st =
     (let st1 = set_points fi st
      in solvePnP lib (obj_points st1) (markers st1 ! 0) (intrinsics st1))"

text \<open>
  The columns and the rows that the conversion to \<^verbatim>\<open>int\<close> gives for the four points
  of \<^verbatim>\<open>roi_projection\<close>.
\<close>

definition proj_xs :: "cv \<Rightarrow> aruco_tracker \<Rightarrow> int set" where
  "proj_xs lib st = (\<lambda>i. to_int lib (fst (roi_projection st ! i))) ` {0 ..< 4}"

definition proj_ys :: "cv \<Rightarrow> aruco_tracker \<Rightarrow> int set" where
  "proj_ys lib st = (\<lambda>i. to_int lib (snd (roi_projection st ! i))) ` {0 ..< 4}"

text \<open>The guard of the attempt inside the stored region, and the detector's answer there.\<close>

definition roi_usable :: "aruco_tracker \<Rightarrow> bool" where
  "roi_usable st = (rect_width (last_roi st) > 1 \<and> rect_height (last_roi st) > 1)"

definition roi_answer :: "tracker_consts \<Rightarrow> frame_in \<Rightarrow> aruco_tracker \<Rightarrow> Point2f list list" where
  "roi_answer c fi st =
     detect fi (roi_min_size c (mat_cols (grayscale st)) (rect_width (last_roi st)))
               (roi_max_size c (mat_cols (grayscale st)) (rect_width (last_roi st)))
               (Some (last_roi st))"

text \<open>The calls of the attempt inside the stored region.\<close>

definition roi_events :: "tracker_consts \<Rightarrow> aruco_tracker \<Rightarrow> event list" where
  "roi_events c st =
     (if roi_usable st
      then [SetMinMaxSize (roi_min_size c (mat_cols (grayscale st)) (rect_width (last_roi st)))
                          (roi_max_size c (mat_cols (grayscale st)) (rect_width (last_roi st))),
            DetectRoi (last_roi st)]
      else [])"

text \<open>
  The size bounds as the specification words them: the configured bound, rescaled by the
  ratio of the width of the frame to the width of the region, then clamped into
  \<open>[0.01, 1]\<close>.
\<close>

definition spec_clamp :: "real \<Rightarrow> real" where
  "spec_clamp v = (if v < 1 / 100 then 1 / 100 else if 1 < v then 1 else v)"

definition spec_roi_bound :: "real \<Rightarrow> int \<Rightarrow> int \<Rightarrow> real" where
  "spec_roi_bound b frame_w roi_w = spec_clamp (b * (of_int frame_w / of_int roi_w))"

section \<open>Concrete inputs\<close>

definition ex_consts :: tracker_consts where
  "ex_consts = \<lparr>RC = 1 / 4, size_min = 5 / 100, size_max = 3 / 10, c_search_window = 13 / 10\<rparr>"

definition ex_settings :: settings where
  "ex_settings = \<lparr>resolution = 0, force_fps = 0, fov = 56,
                  headpos_x = 0, headpos_y = 0, headpos_z = 0\<rparr>"

text \<open>
  Library routines that always solve, and routines whose solver fails. The three
  functions of the C++ library are replaced by rational stand-ins; a conversion out of
  range gives the smallest \<^verbatim>\<open>int\<close>, as on x86-64.
\<close>

definition ex_lib :: cv where
  "ex_lib = \<lparr>solvePnP = (\<lambda>obj img k. (True, (1 / 10, 2 / 10, 3 / 10), (10, 20, 300))),
             projectPoints = (\<lambda>pts rv tv k. map (\<lambda>p. (320 + fst p, 240 + fst (snd p))) pts),
             Rodrigues = (\<lambda>rv. eye),
             RQDecomp3x3 = (\<lambda>m. (1, 2, 3)),
             std_atan = (\<lambda>v. v), std_tan = (\<lambda>v. v), std_sqrt = (\<lambda>v. v),
             int_outside = (\<lambda>v. - 2147483648)\<rparr>"

definition ex_lib_unsolved :: cv where
  "ex_lib_unsolved = ex_lib\<lparr>solvePnP := (\<lambda>obj img k. (False, (0, 0, 0), (0, 0, 0)))\<rparr>"

definition ex_quad :: "Point2f list" where
  "ex_quad = [(100, 100), (200, 100), (200, 200), (100, 200)]"

text \<open>
  Three frames of 640 by 480: one whose marker is found on the whole image but in no
  region, one without a marker, one whose marker is found only inside a region.
\<close>

definition ex_frame :: frame_in where
  "ex_frame = \<lparr>read_ok = True, frame_cols = 640, frame_rows = 480, elapsed_seconds = 1 / 60,
               detect = (\<lambda>lo hi roi. case roi of None \<Rightarrow> [ex_quad] | Some r \<Rightarrow> []),
               cfg = ex_settings\<rparr>"

definition ex_frame_blank :: frame_in where
  "ex_frame_blank = ex_frame\<lparr>detect := (\<lambda>lo hi roi. [])\<rparr>"

definition ex_frame_roi :: frame_in where
  "ex_frame_roi = ex_frame\<lparr>detect := (\<lambda>lo hi roi. case roi of None \<Rightarrow> []
                      | Some r \<Rightarrow> [[(10, 10), (60, 10), (60, 60), (10, 60)]])\<rparr>"

text \<open>A tracker just started, and one that holds a pose and a region from earlier frames.\<close>

definition ex_tracker :: aruco_tracker where
  "ex_tracker = start_tracker (new_aruco_tracker (\<lambda>i. 7))"

definition ex_tracking :: aruco_tracker where
  "ex_tracking = ex_tracker\<lparr>last_roi := mk_Rect 90 90 120 120, color := (640, 480),
                   grayscale := (640, 480), pose := [1, 2, 30, 4, 5, 6]\<rparr>"

text \<open>A 640 by 480 frame on which all four points project to the right of the image.\<close>

definition ex_offscreen :: aruco_tracker where
  "ex_offscreen = ex_tracker\<lparr>color := (640, 480),
     roi_projection := [(700, 100), (700, 200), (800, 200), (800, 100)]\<rparr>"

text \<open>The same frame with the four points inside the image.\<close>

definition ex_onscreen :: aruco_tracker where
  "ex_onscreen = ex_tracker\<lparr>color := (640, 480),
     roi_projection := [(90, 100), (90, 200), (210, 200), (210, 100)]\<rparr>"

text \<open>
  The same frame with the four points so far to the right that their columns are no
  32-bit integers.
\<close>

definition ex_farscreen :: aruco_tracker where
  "ex_farscreen = ex_tracker\<lparr>color := (640, 480),
     roi_projection := [(3000000000, 100), (3000000000, 200), (3000000000, 200), (3000000000, 100)]\<rparr>"

text \<open>
  A calibrator that keeps the translations it was fed and estimates the first one, and a
  dialog in each of its two states.
\<close>

definition ex_ops :: "(Vec3d list) calibrator_ops" where
  "ex_ops = \<lparr>calib_reset = (\<lambda>acc. []),
             calib_update = (\<lambda>acc r t. acc @ [t]),
             calib_get_estimate = (\<lambda>acc. case acc of [] \<Rightarrow> (0, 0, 0) | t # ts \<Rightarrow> t)\<rparr>"

definition ex_dialog_idle :: "(Vec3d list) aruco_dialog" where
  "ex_dialog_idle = \<lparr>dlg_s = ex_settings\<lparr>headpos_x := 1, headpos_y := 2, headpos_z := 3\<rparr>,
                     calib_timer_active = False, calibrator = [(9, 9, 9)],
                     tracker = Some ex_tracking\<rparr>"

definition ex_dialog_calibrating :: "(Vec3d list) aruco_dialog" where
  "ex_dialog_calibrating = \<lparr>dlg_s = ex_settings, calib_timer_active = True,
                            calibrator = [(5, 10, - 3)], tracker = Some ex_tracking\<rparr>"

section \<open>Facts about the search region\<close>

lemma upt4: "[0 ..< 4] = [0, 1, 2, 3]"
  by (simp add: upt_rec)

lemma upt3: "[0 ..< 3] = [0, 1, 2]"
  by (simp add: upt_rec)

lemma upt6: "[0 ..< 6] = [0, 1, 2, 3, 4, 5]"
  by (simp add: upt_rec)

lemma roi_accumulate_fields:
  "rect_x (roi_accumulate lib r p) = min (to_int lib (fst p)) (rect_x r)"
  "rect_y (roi_accumulate lib r p) = min (to_int lib (snd p)) (rect_y r)"
  "rect_width (roi_accumulate lib r p) = max (to_int lib (fst p)) (rect_width r)"
  "rect_height (roi_accumulate lib r p) = max (to_int lib (snd p)) (rect_height r)"
  by (simp_all add: roi_accumulate_def Let_def)

lemma clamp_x:
  "rect_x (last_roi (clamp_last_roi st)) =
     (let a = max 0 (rect_x (last_roi st))
      in if a \<ge> mat_cols (color st) - 1 then mat_cols (color st) - 1 else a)"
  by (simp add: clamp_last_roi_def Let_def max_def)

lemma clamp_width:
  "rect_width (last_roi (clamp_last_roi st)) =
     (let b = max 1 (rect_width (last_roi st))
      in if b \<ge> mat_cols (color st) - 1 then mat_cols (color st) - 1 else b)
     - rect_x (last_roi (clamp_last_roi st))"
  by (simp add: clamp_last_roi_def Let_def max_def)

lemma clamp_y:
  "rect_y (last_roi (clamp_last_roi st)) =
     (let a = max 0 (rect_y (last_roi st))
      in if a \<ge> mat_rows (color st) - 1 then mat_rows (color st) - 1 else a)"
  by (simp add: clamp_last_roi_def Let_def max_def)

lemma clamp_height:
  "rect_height (last_roi (clamp_last_roi st)) =
     (let b = max 1 (rect_height (last_roi st))
      in if b \<ge> mat_rows (color st) - 1 then mat_rows (color st) - 1 else b)
     - rect_y (last_roi (clamp_last_roi st))"
  by (simp add: clamp_last_roi_def Let_def max_def)

text \<open>After the loop the smallest coordinate is not above the largest one.\<close>

lemma acc_x_le_width:
  "rect_x (roi_accumulate lib r p) \<le> rect_width (roi_accumulate lib r p)"
  by (simp add: roi_accumulate_fields)

lemma acc_y_le_height:
  "rect_y (roi_accumulate lib r p) \<le> rect_height (roi_accumulate lib r p)"
  by (simp add: roi_accumulate_fields)

lemma fold_ordered:
  "rect_x (foldl (\<lambda>roi i. roi_accumulate lib roi (ps ! i)) r0 [0 ..< 4])
     \<le> rect_width (foldl (\<lambda>roi i. roi_accumulate lib roi (ps ! i)) r0 [0 ..< 4])"
  "rect_y (foldl (\<lambda>roi i. roi_accumulate lib roi (ps ! i)) r0 [0 ..< 4])
     \<le> rect_height (foldl (\<lambda>roi i. roi_accumulate lib roi (ps ! i)) r0 [0 ..< 4])"
  by (simp_all add: upt4 acc_x_le_width acc_y_le_height)

lemma clamp_bounds_x:
  assumes "1 \<le> mat_cols (color st)" "rect_x (last_roi st) \<le> rect_width (last_roi st)"
  shows "0 \<le> rect_x (last_roi (clamp_last_roi st))"
    and "rect_x (last_roi (clamp_last_roi st)) \<le> mat_cols (color st) - 1"
    and "0 \<le> rect_width (last_roi (clamp_last_roi st))"
    and "rect_x (last_roi (clamp_last_roi st)) + rect_width (last_roi (clamp_last_roi st))
           \<le> mat_cols (color st) - 1"
  using assms by (auto simp: clamp_width clamp_x Let_def)

lemma clamp_bounds_y:
  assumes "1 \<le> mat_rows (color st)" "rect_y (last_roi st) \<le> rect_height (last_roi st)"
  shows "0 \<le> rect_y (last_roi (clamp_last_roi st))"
    and "rect_y (last_roi (clamp_last_roi st)) \<le> mat_rows (color st) - 1"
    and "0 \<le> rect_height (last_roi (clamp_last_roi st))"
    and "rect_y (last_roi (clamp_last_roi st)) + rect_height (last_roi (clamp_last_roi st))
           \<le> mat_rows (color st) - 1"
  using assms by (auto simp: clamp_height clamp_y Let_def)

text \<open>The loop computes the smallest and the largest coordinate, over any list of indices.\<close>

lemma foldl_min_Min:
  "foldl (\<lambda>a i. min (g i) a) (a0 :: int) js = Min (insert a0 (g ` set js))"
proof (induction js arbitrary: a0)
  case Nil
  show ?case by simp
next
  case (Cons j js)
  have "Min (insert (min (g j) a0) (g ` set js)) = Min (insert a0 (insert (g j) (g ` set js)))"
    by (cases "js = []") (simp_all add: min.commute min.left_commute)
  with Cons.IH [of "min (g j) a0"] show ?case by simp
qed

lemma foldl_max_Max:
  "foldl (\<lambda>a i. max (g i) a) (a0 :: int) js = Max (insert a0 (g ` set js))"
proof (induction js arbitrary: a0)
  case Nil
  show ?case by simp
next
  case (Cons j js)
  have "Max (insert (max (g j) a0) (g ` set js)) = Max (insert a0 (insert (g j) (g ` set js)))"
    by (cases "js = []") (simp_all add: max.commute max.left_commute)
  with Cons.IH [of "max (g j) a0"] show ?case by simp
qed

lemma fold_accumulate_split:
  "rect_x (foldl (\<lambda>roi i. roi_accumulate lib roi (ps ! i)) r0 js)
     = foldl (\<lambda>a i. min (to_int lib (fst (ps ! i))) a) (rect_x r0) js"
  "rect_y (foldl (\<lambda>roi i. roi_accumulate lib roi (ps ! i)) r0 js)
     = foldl (\<lambda>a i. min (to_int lib (snd (ps ! i))) a) (rect_y r0) js"
  "rect_width (foldl (\<lambda>roi i. roi_accumulate lib roi (ps ! i)) r0 js)
     = foldl (\<lambda>a i. max (to_int lib (fst (ps ! i))) a) (rect_width r0) js"
  "rect_height (foldl (\<lambda>roi i. roi_accumulate lib roi (ps ! i)) r0 js)
     = foldl (\<lambda>a i. max (to_int lib (snd (ps ! i))) a) (rect_height r0) js"
  by (induction js arbitrary: r0) (simp_all add: roi_accumulate_fields)

text \<open>
  When the difference of the two clamped bounds is at least 1, for the bounds of a finite
  non-empty set of coordinates on an axis of \<open>n\<close> cells.
\<close>

lemma clamped_extent_pos:
  assumes "finite X" and "X \<noteq> {}" and "(2 :: int) \<le> n"
  shows "1 \<le> (let b = max 1 (Max (insert 0 X)) in if b \<ge> n - 1 then n - 1 else b)
            - (let a = max 0 (Min (insert (n - 1) X)) in if a \<ge> n - 1 then n - 1 else a)
         \<longleftrightarrow> (\<exists>a\<in>X. a < n - 1) \<and> ((\<exists>a\<in>X. a \<le> 0) \<or> (\<exists>a\<in>X. \<exists>b\<in>X. a < b))"
proof -
  define l where "l = Min X"
  define h where "h = Max X"
  have lh: "l \<in> X" "h \<in> X" "\<And>a. a \<in> X \<Longrightarrow> l \<le> a \<and> a \<le> h"
    using assms(1,2) by (simp_all add: l_def h_def)
  have lo: "Min (insert (n - 1) X) = min (n - 1) l" and hi: "Max (insert 0 X) = max 0 h"
    using assms(1,2) by (simp_all add: l_def h_def)
  have e1: "(\<exists>a\<in>X. a < n - 1) \<longleftrightarrow> l < n - 1"
    using lh by (meson le_less_trans)
  have e2: "(\<exists>a\<in>X. a \<le> 0) \<longleftrightarrow> l \<le> 0"
    using lh by (meson order_trans)
  have e3: "(\<exists>a\<in>X. \<exists>b\<in>X. a < b) \<longleftrightarrow> l < h"
    using lh by (meson le_less_trans less_le_trans)
  have lh': "l \<le> h" using lh by blast
  show ?thesis
    unfolding e1 e2 e3 lo hi using lh' assms(3) by (auto simp: Let_def min_def max_def)
qed

lemma proj_finite:
  "finite (proj_xs lib st)" "proj_xs lib st \<noteq> {}" "finite (proj_ys lib st)" "proj_ys lib st \<noteq> {}"
  by (simp_all add: proj_xs_def proj_ys_def)

lemma accumulated_fields:
  "rect_x (foldl (\<lambda>roi i. roi_accumulate lib roi (roi_projection st ! i)) (mk_Rect a b 0 0) [0 ..< 4])
     = Min (insert a (proj_xs lib st))"
  "rect_y (foldl (\<lambda>roi i. roi_accumulate lib roi (roi_projection st ! i)) (mk_Rect a b 0 0) [0 ..< 4])
     = Min (insert b (proj_ys lib st))"
  "rect_width (foldl (\<lambda>roi i. roi_accumulate lib roi (roi_projection st ! i)) (mk_Rect a b 0 0) [0 ..< 4])
     = Max (insert 0 (proj_xs lib st))"
  "rect_height (foldl (\<lambda>roi i. roi_accumulate lib roi (roi_projection st ! i)) (mk_Rect a b 0 0) [0 ..< 4])
     = Max (insert 0 (proj_ys lib st))"
  by (simp_all add: fold_accumulate_split foldl_min_Min foldl_max_Max proj_xs_def proj_ys_def
      mk_Rect_def)

lemma set_roi_from_projection_x:
  "rect_x (last_roi (set_roi_from_projection lib st)) =
     (let a = max 0 (Min (insert (mat_cols (color st) - 1) (proj_xs lib st)))
      in if a \<ge> mat_cols (color st) - 1 then mat_cols (color st) - 1 else a)"
  by (simp add: set_roi_from_projection_def clamp_x accumulated_fields Let_def)

lemma set_roi_from_projection_width:
  "rect_width (last_roi (set_roi_from_projection lib st)) =
     (let b = max 1 (Max (insert 0 (proj_xs lib st)))
      in if b \<ge> mat_cols (color st) - 1 then mat_cols (color st) - 1 else b)
     - (let a = max 0 (Min (insert (mat_cols (color st) - 1) (proj_xs lib st)))
        in if a \<ge> mat_cols (color st) - 1 then mat_cols (color st) - 1 else a)"
  by (simp add: set_roi_from_projection_def clamp_x clamp_width accumulated_fields Let_def)

lemma set_roi_from_projection_y:
  "rect_y (last_roi (set_roi_from_projection lib st)) =
     (let a = max 0 (Min (insert (mat_rows (color st) - 1) (proj_ys lib st)))
      in if a \<ge> mat_rows (color st) - 1 then mat_rows (color st) - 1 else a)"
  by (simp add: set_roi_from_projection_def clamp_y accumulated_fields Let_def)

lemma set_roi_from_projection_height:
  "rect_height (last_roi (set_roi_from_projection lib st)) =
     (let b = max 1 (Max (insert 0 (proj_ys lib st)))
      in if b \<ge> mat_rows (color st) - 1 then mat_rows (color st) - 1 else b)
     - (let a = max 0 (Min (insert (mat_rows (color st) - 1) (proj_ys lib st)))
        in if a \<ge> mat_rows (color st) - 1 then mat_rows (color st) - 1 else a)"
  by (simp add: set_roi_from_projection_def clamp_y clamp_height accumulated_fields Let_def)

lemma roi_width_pos_iff:
  assumes "2 \<le> mat_cols (color st)"
  shows "1 \<le> rect_width (last_roi (set_roi_from_projection lib st))
     \<longleftrightarrow> (\<exists>a\<in>proj_xs lib st. a < mat_cols (color st) - 1)
        \<and> ((\<exists>a\<in>proj_xs lib st. a \<le> 0) \<or> (\<exists>a\<in>proj_xs lib st. \<exists>b\<in>proj_xs lib st. a < b))"
  unfolding set_roi_from_projection_width
  by (rule clamped_extent_pos [OF proj_finite(1,2) assms])

lemma roi_height_pos_iff:
  assumes "2 \<le> mat_rows (color st)"
  shows "1 \<le> rect_height (last_roi (set_roi_from_projection lib st))
     \<longleftrightarrow> (\<exists>a\<in>proj_ys lib st. a < mat_rows (color st) - 1)
        \<and> ((\<exists>a\<in>proj_ys lib st. a \<le> 0) \<or> (\<exists>a\<in>proj_ys lib st. \<exists>b\<in>proj_ys lib st. a < b))"
  unfolding set_roi_from_projection_height
  by (rule clamped_extent_pos [OF proj_finite(3,4) assms])

lemma proj_member:
  "i < 4 \<Longrightarrow> to_int lib (fst (roi_projection st ! i)) \<in> proj_xs lib st"
  "i < 4 \<Longrightarrow> to_int lib (snd (roi_projection st ! i)) \<in> proj_ys lib st"
  by (simp_all add: proj_xs_def proj_ys_def)

section \<open>Facts about the state\<close>

text \<open>
  Each function changes few members; these equations say which ones it leaves alone and
  which calls it adds to the trace.
\<close>

lemma emit_sel [simp]:
  "pose (emit e st) = pose st" "last_roi (emit e st) = last_roi st"
  "color (emit e st) = color st" "grayscale (emit e st) = grayscale st"
  "markers (emit e st) = markers st" "tvec (emit e st) = tvec st" "rvec (emit e st) = rvec st"
  "trace (emit e st) = trace st @ [e]"
  by (simp_all add: emit_def)

lemma camera_read_sel [simp]:
  "pose (camera_read fi st) = pose st" "last_roi (camera_read fi st) = last_roi st"
  "color (camera_read fi st) = (frame_cols fi, frame_rows fi)"
  "trace (camera_read fi st) = trace st @ [CameraRead]"
  by (simp_all add: camera_read_def)

lemma set_intrinsics_sel [simp]:
  "pose (set_intrinsics lib fi st) = pose st" "last_roi (set_intrinsics lib fi st) = last_roi st"
  "color (set_intrinsics lib fi st) = color st" "grayscale (set_intrinsics lib fi st) = grayscale st"
  "markers (set_intrinsics lib fi st) = markers st" "trace (set_intrinsics lib fi st) = trace st"
  "fps (set_intrinsics lib fi st) = fps st"
  by (simp_all add: set_intrinsics_def Let_def)

lemma update_fps_sel [simp]:
  "pose (update_fps c fi st) = pose st" "last_roi (update_fps c fi st) = last_roi st"
  "color (update_fps c fi st) = color st" "grayscale (update_fps c fi st) = grayscale st"
  "markers (update_fps c fi st) = markers st" "trace (update_fps c fi st) = trace st"
  by (simp_all add: update_fps_def Let_def)

lemma prepare_frame_sel [simp]:
  "pose (prepare_frame lib c fi st) = pose st" "last_roi (prepare_frame lib c fi st) = last_roi st"
  "color (prepare_frame lib c fi st) = color st" "grayscale (prepare_frame lib c fi st) = color st"
  "markers (prepare_frame lib c fi st) = []" "trace (prepare_frame lib c fi st) = trace st"
  by (simp_all add: prepare_frame_def Let_def)

lemma at_detection_sel [simp]:
  "pose (at_detection lib c fi st) = pose st" "last_roi (at_detection lib c fi st) = last_roi st"
  "color (at_detection lib c fi st) = (frame_cols fi, frame_rows fi)"
  "grayscale (at_detection lib c fi st) = (frame_cols fi, frame_rows fi)"
  "markers (at_detection lib c fi st) = []" "trace (at_detection lib c fi st) = trace st @ [CameraRead]"
  by (simp_all add: at_detection_def)

lemma set_points_sel [simp]:
  "pose (set_points fi st) = pose st" "last_roi (set_points fi st) = last_roi st"
  "color (set_points fi st) = color st" "markers (set_points fi st) = markers st"
  "trace (set_points fi st) = trace st" "intrinsics (set_points fi st) = intrinsics st"
  "tvec (set_points fi st) = tvec st" "rvec (set_points fi st) = rvec st"
  by (simp_all add: set_points_def Let_def)

lemma clamp_last_roi_sel [simp]:
  "pose (clamp_last_roi st) = pose st" "color (clamp_last_roi st) = color st"
  "trace (clamp_last_roi st) = trace st" "tvec (clamp_last_roi st) = tvec st"
  "rvec (clamp_last_roi st) = rvec st" "markers (clamp_last_roi st) = markers st"
  by (simp_all add: clamp_last_roi_def Let_def)

lemma set_roi_from_projection_sel [simp]:
  "pose (set_roi_from_projection lib st) = pose st" "color (set_roi_from_projection lib st) = color st"
  "trace (set_roi_from_projection lib st) = trace st" "tvec (set_roi_from_projection lib st) = tvec st"
  "rvec (set_roi_from_projection lib st) = rvec st" "markers (set_roi_from_projection lib st) = markers st"
  by (simp_all add: set_roi_from_projection_def Let_def)

lemma set_last_roi_sel [simp]:
  "pose (set_last_roi lib c fi st) = pose st" "color (set_last_roi lib c fi st) = color st"
  "trace (set_last_roi lib c fi st) = trace st" "tvec (set_last_roi lib c fi st) = tvec st"
  "rvec (set_last_roi lib c fi st) = rvec st" "markers (set_last_roi lib c fi st) = markers st"
  by (simp_all add: set_last_roi_def Let_def)

lemma draw_centroid_sel [simp]:
  "pose (draw_centroid lib st) = pose st" "color (draw_centroid lib st) = color st"
  "trace (draw_centroid lib st) = trace st" "tvec (draw_centroid lib st) = tvec st"
  "rvec (draw_centroid lib st) = rvec st" "markers (draw_centroid lib st) = markers st"
  "last_roi (draw_centroid lib st) = last_roi st"
  by (simp_all add: draw_centroid_def Let_def)

lemma set_rmat_sel [simp]:
  "color (set_rmat lib st) = color st" "trace (set_rmat lib st) = trace st"
  "last_roi (set_rmat lib st) = last_roi st" "markers (set_rmat lib st) = markers st"
  by (simp_all add: set_rmat_def Let_def)

lemma draw_ar_sel [simp]:
  "pose (draw_ar ok st) = pose st" "last_roi (draw_ar ok st) = last_roi st"
  "color (draw_ar ok st) = color st" "trace (draw_ar ok st) = trace st @ [DrawAr ok]"
  by (simp_all add: draw_ar_def)

lemma new_events_append [simp]: "trace st' = trace st @ es \<Longrightarrow> new_events st st' = es"
  by (simp add: new_events_def)

section \<open>Facts about detection\<close>

lemma offset_marker_map:
  assumes "length m = 4"
  shows "offset_marker roi m = map (offset_corner roi) m"
proof -
  from assms obtain a b c d where m: "m = [a, b, c, d]"
    by (auto simp: numeral_eq_Suc length_Suc_conv)
  show ?thesis by (simp add: m offset_marker_def upt4)
qed

lemma one_quad_single: "one_quad ms \<longleftrightarrow> (\<exists>m. ms = [m] \<and> length m = 4)"
  by (cases ms) (auto simp: one_quad_def)

lemma detect_with_roi_sel [simp]:
  "pose (snd (detect_with_roi c fi st)) = pose st"
  "color (snd (detect_with_roi c fi st)) = color st"
  "grayscale (snd (detect_with_roi c fi st)) = grayscale st"
  "tvec (snd (detect_with_roi c fi st)) = tvec st"
  by (simp_all add: detect_with_roi_def Let_def)

lemma detect_with_roi_fail_roi:
  "\<not> fst (detect_with_roi c fi st) \<Longrightarrow> last_roi (snd (detect_with_roi c fi st)) = sentinel_roi"
  by (auto simp: detect_with_roi_def Let_def split: if_splits)

lemma detect_with_roi_trace:
  "trace (snd (detect_with_roi c fi st)) = trace st @ roi_events c st"
  by (simp add: detect_with_roi_def Let_def roi_events_def roi_usable_def emit_def)

lemma detect_with_roi_cases:
  "detect_with_roi c fi st =
     (if roi_usable st \<and> one_quad (roi_answer c fi st)
      then (True, st\<lparr>trace := trace st @ roi_events c st,
                     markers := [offset_marker (last_roi st) (roi_answer c fi st ! 0)]\<rparr>)
      else if roi_usable st
      then (False, st\<lparr>trace := trace st @ roi_events c st, markers := roi_answer c fi st,
                      last_roi := sentinel_roi\<rparr>)
      else (False, st\<lparr>last_roi := sentinel_roi\<rparr>))"
  by (cases "roi_answer c fi st")
     (auto simp: detect_with_roi_def Let_def roi_events_def roi_usable_def emit_def roi_answer_def one_quad_def)

lemma detect_without_roi_eq:
  "detect_without_roi c fi st =
     (one_quad (detect fi (size_min c) (size_max c) None),
      st\<lparr>trace := trace st @ [SetMinMaxSize (size_min c) (size_max c), DetectFull],
         markers := detect fi (size_min c) (size_max c) None\<rparr>)"
  by (simp add: detect_without_roi_def Let_def emit_def)

lemma detect_marker_sel [simp]:
  "pose (snd (detect_marker c fi st)) = pose st"
  "color (snd (detect_marker c fi st)) = color st"
  by (simp_all add: detect_marker_def Let_def detect_without_roi_eq)

lemma detect_marker_trace:
  "trace (snd (detect_marker c fi st)) =
     trace st @ roi_events c st
       @ (if fst (detect_with_roi c fi st) then []
          else [SetMinMaxSize (size_min c) (size_max c), DetectFull])"
  by (simp add: detect_marker_def Let_def detect_without_roi_eq detect_with_roi_trace)

lemma fallback_found:
  assumes "\<not> fst (detect_with_roi c fi st)"
    and "detect fi (size_min c) (size_max c) None = [m]" and "length m = 4"
  shows "fst (detect_marker c fi st)" and "markers (snd (detect_marker c fi st)) = [m]"
  using assms by (simp_all add: detect_marker_def Let_def detect_without_roi_eq one_quad_def)

lemma roi_usable_at_detection [simp]: "roi_usable (at_detection lib c fi st) = roi_usable st"
  by (simp add: roi_usable_def)

lemma roi_answer_at_detection:
  "roi_answer c fi (at_detection lib c fi st) =
     detect fi (roi_min_size c (frame_cols fi) (rect_width (last_roi st)))
               (roi_max_size c (frame_cols fi) (rect_width (last_roi st))) (Some (last_roi st))"
  by (simp add: roi_answer_def mat_cols_def)

lemma spec_clamp_min_max: "min 1 (max (1 / 100) v) = spec_clamp v"
  by (simp add: spec_clamp_def min_def max_def)

lemma spec_clamp_max_min: "max (1 / 100) (min 1 v) = spec_clamp v"
  by (simp add: spec_clamp_def min_def max_def)

lemma roi_min_size_spec: "roi_min_size c W w = spec_roi_bound (size_min c) W w"
  by (simp add: roi_min_size_def spec_roi_bound_def spec_clamp_min_max)

lemma roi_max_size_spec: "roi_max_size c W w = spec_roi_bound (size_max c) W w"
  by (simp add: roi_max_size_def spec_roi_bound_def spec_clamp_max_min)

lemma spec_roi_bound_range:
  "1 / 100 \<le> spec_roi_bound b W w" "spec_roi_bound b W w \<le> 1"
  by (simp_all add: spec_roi_bound_def spec_clamp_def)

section \<open>Facts about one pass of the loop\<close>

lemma solve_or_fail_no_marker:
  "solve_or_fail lib c fi False st = st\<lparr>last_roi := sentinel_roi\<rparr>"
  by (simp add: solve_or_fail_def)

lemma solve_or_fail_unsolved:
  "\<not> fst (pnp_result lib fi st) \<Longrightarrow>
     pose (solve_or_fail lib c fi True st) = pose st
   \<and> last_roi (solve_or_fail lib c fi True st) = sentinel_roi"
  by (simp add: solve_or_fail_def pnp_result_def Let_def)

lemma solve_or_fail_color [simp]:
  "color (solve_or_fail lib c fi ok st) = color st"
  by (simp add: solve_or_fail_def Let_def)

lemma solve_or_fail_trace:
  "trace (solve_or_fail lib c fi ok st) = trace st @ (if ok then [SolvePnP] else [])"
  by (simp add: solve_or_fail_def Let_def)

lemma solve_or_fail_solved:
  assumes "pnp_result lib fi st = (True, rv, tv)"
  shows "solve_or_fail lib c fi True st =
     set_rmat lib (draw_centroid lib (set_last_roi lib c fi
       ((emit SolvePnP (set_points fi st))\<lparr>rvec := rv, tvec := tv\<rparr>)))"
  using assms by (simp add: solve_or_fail_def pnp_result_def Let_def)

lemma finish_frame_pose_roi:
  "pose (finish_frame lib c fi st) = pose (solve_or_fail lib c fi (fst (detect_marker c fi st)) (snd (detect_marker c fi st)))"
  "last_roi (finish_frame lib c fi st) = last_roi (solve_or_fail lib c fi (fst (detect_marker c fi st)) (snd (detect_marker c fi st)))"
  by (simp_all add: finish_frame_def Let_def)

lemma finish_frame_rt:
  "getRT (finish_frame lib c fi st) =
     getRT (solve_or_fail lib c fi (fst (detect_marker c fi st)) (snd (detect_marker c fi st)))"
  by (simp add: finish_frame_def Let_def getRT_def draw_ar_def emit_def)

lemma finish_frame_trace:
  "trace (finish_frame lib c fi st) =
     trace (snd (detect_marker c fi st))
       @ (if fst (detect_marker c fi st) then [SolvePnP] else [])
       @ [DrawAr (fst (detect_marker c fi st))]
       @ (if mat_rows (color st) > 0 then [UpdateImage] else [])"
  by (simp add: finish_frame_def Let_def solve_or_fail_trace)

lemma iteration_read_ok:
  "read_ok fi \<Longrightarrow> iteration lib c st fi = finish_frame lib c fi (at_detection lib c fi st)"
  by (simp add: iteration_def at_detection_def Let_def)

lemma iteration_read_failed:
  "\<not> read_ok fi \<Longrightarrow> iteration lib c st fi = camera_read fi st"
  by (simp add: iteration_def Let_def)

lemma iteration_trace:
  assumes "read_ok fi"
  shows "trace (iteration lib c st fi) =
     trace st @ ([CameraRead] @ roi_events c (at_detection lib c fi st)
       @ (if fst (detect_with_roi c fi (at_detection lib c fi st)) then []
          else [SetMinMaxSize (size_min c) (size_max c), DetectFull])
       @ (if fst (detect_marker c fi (at_detection lib c fi st)) then [SolvePnP] else [])
       @ [DrawAr (fst (detect_marker c fi (at_detection lib c fi st)))]
       @ (if frame_rows fi > 0 then [UpdateImage] else []))"
  by (simp add: iteration_read_ok [OF assms] finish_frame_trace detect_marker_trace mat_rows_def)

lemma set_rmat_pose:
  assumes "length (pose st) = 6"
  shows "pose (set_rmat lib st) =
     [vec_at (tvec st) 0 * (1 / 10), vec_at (tvec st) 1 * (1 / 10), vec_at (tvec st) 2 * (1 / 10),
      vec_at (RQDecomp3x3 lib (Rodrigues lib (rvec st))) 1,
      - vec_at (RQDecomp3x3 lib (Rodrigues lib (rvec st))) 0,
      vec_at (RQDecomp3x3 lib (Rodrigues lib (rvec st))) 2]"
proof -
  from assms obtain a b c d e f where p: "pose st = [a, b, c, d, e, f]"
    by (auto simp: numeral_eq_Suc length_Suc_conv)
  show ?thesis
    by (simp add: set_rmat_def Let_def p upt3 Yaw_def Pitch_def Roll_def)
qed

lemma set_rmat_rt:
  "getRT (set_rmat lib st) =
     (Rodrigues lib (rvec st), (vec_at (tvec st) 0, - vec_at (tvec st) 1, vec_at (tvec st) 2))"
  by (simp add: set_rmat_def Let_def getRT_def)

lemma data_copies_pose:
  assumes "length (pose st) = 6" and "length d = 6"
  shows "data st d = pose st"
proof -
  from assms(1) obtain a b c d' e f where p: "pose st = [a, b, c, d', e, f]"
    by (auto simp: numeral_eq_Suc length_Suc_conv)
  from assms(2) obtain a' b' c' d'' e' f' where d: "d = [a', b', c', d'', e', f']"
    by (auto simp: numeral_eq_Suc length_Suc_conv)
  show ?thesis
    by (simp add: data_def Let_def p d TX_def TY_def TZ_def Yaw_def Pitch_def Roll_def)
qed

lemma solved_state:
  assumes "pnp_result lib fi st = (True, rv, tv)" and "length (pose st) = 6"
  shows "pose (solve_or_fail lib c fi True st) =
     [vec_at tv 0 * (1 / 10), vec_at tv 1 * (1 / 10), vec_at tv 2 * (1 / 10),
      vec_at (RQDecomp3x3 lib (Rodrigues lib rv)) 1,
      - vec_at (RQDecomp3x3 lib (Rodrigues lib rv)) 0,
      vec_at (RQDecomp3x3 lib (Rodrigues lib rv)) 2]"
    and "getRT (solve_or_fail lib c fi True st) =
     (Rodrigues lib rv, (vec_at tv 0, - vec_at tv 1, vec_at tv 2))"
  using assms(2)
  by (simp_all add: solve_or_fail_solved [OF assms(1)] set_rmat_pose set_rmat_rt)

lemma open_camera_sel:
  "fst (open_camera s is_opened st) = is_opened"
  "pose (snd (open_camera s is_opened st)) = pose st"
  "trace (snd (open_camera s is_opened st)) = trace st"
  "last_roi (snd (open_camera s is_opened st)) = last_roi st"
  by (simp_all add: open_camera_def Let_def)

lemma start_tracker_pose:
  "pose (start_tracker (new_aruco_tracker p0)) = [0, 0, 0, 0, 0, 0]"
  by (simp add: start_tracker_def new_aruco_tracker_def upt6)

text \<open>The pose keeps its six entries from \<^verbatim>\<open>start_tracker\<close> on.\<close>

lemma set_rmat_pose_length: "length (pose (set_rmat lib st)) = length (pose st)"
  by (simp add: set_rmat_def Let_def upt3)

lemma solve_or_fail_pose_length:
  "length (pose (solve_or_fail lib c fi ok st)) = length (pose st)"
  by (simp add: solve_or_fail_def Let_def set_rmat_pose_length)

lemma iteration_pose_length:
  "length (pose (iteration lib c st fi)) = length (pose st)"
  by (cases "read_ok fi")
     (simp_all add: iteration_read_ok iteration_read_failed finish_frame_pose_roi
        solve_or_fail_pose_length)

lemma run_pose_length:
  "length (pose (run lib c s is_opened frames st)) = length (pose st)"
proof -
  have "length (pose (foldl (iteration lib c) st0 frames)) = length (pose st0)" for st0
    by (induction frames arbitrary: st0) (simp_all add: iteration_pose_length)
  then show ?thesis
    by (simp add: run_def Let_def open_camera_def)
qed

lemma started_pose_length: "length (pose (start_tracker (new_aruco_tracker p0))) = 6"
  by (simp add: start_tracker_pose)

text \<open>A failed read changes neither the pose nor the stored region.\<close>

lemma failed_read_keeps_state:
  "\<not> read_ok fi \<Longrightarrow> pose (iteration lib c st fi) = pose st
     \<and> last_roi (iteration lib c st fi) = last_roi st
     \<and> new_events st (iteration lib c st fi) = [CameraRead]"
  by (simp add: iteration_read_failed)

section \<open>Facts about the concrete inputs\<close>

lemma ex_tracker_fields:
  "pose ex_tracker = [0, 0, 0, 0, 0, 0]"
  "last_roi ex_tracker = sentinel_roi"
  "trace ex_tracker = []"
  "markers ex_tracker = []"
  by (simp_all add: ex_tracker_def start_tracker_def new_aruco_tracker_def upt6 sentinel_roi_def)

lemma ex_frame_fields:
  "read_ok ex_frame" "frame_cols ex_frame = 640" "frame_rows ex_frame = 480"
  "detect ex_frame lo hi None = [ex_quad]" "detect ex_frame lo hi (Some r) = []"
  "cfg ex_frame = ex_settings"
  by (simp_all add: ex_frame_def)

lemma ex_frame_roi_fields:
  "detect ex_frame_roi lo hi (Some r) = [[(10, 10), (60, 10), (60, 60), (10, 60)]]"
  "detect ex_frame_roi lo hi None = []"
  by (simp_all add: ex_frame_roi_def)

lemma ex_tracking_fields:
  "last_roi ex_tracking = mk_Rect 90 90 120 120" "pose ex_tracking = [1, 2, 30, 4, 5, 6]"
  "trace ex_tracking = []" "color ex_tracking = (640, 480)" "grayscale ex_tracking = (640, 480)"
  by (simp_all add: ex_tracking_def ex_tracker_fields)

lemma ex_tracking_usable: "roi_usable ex_tracking"
  by (simp add: roi_usable_def ex_tracking_fields mk_Rect_def)

lemma ex_quad_length: "length ex_quad = 4"
  by (simp add: ex_quad_def)

lemma ex_lib_fields:
  "solvePnP ex_lib obj img k = (True, (1 / 10, 2 / 10, 3 / 10), (10, 20, 300))"
  "Rodrigues ex_lib rv = eye" "RQDecomp3x3 ex_lib m = (1, 2, 3)"
  by (simp_all add: ex_lib_def)

lemma ex_detect_fallback:
  "\<not> fst (detect_with_roi ex_consts ex_frame (at_detection lib ex_consts ex_frame st))"
  by (simp add: detect_with_roi_cases roi_answer_at_detection ex_frame_fields one_quad_def)

lemma ex_detect_found:
  "fst (detect_marker ex_consts ex_frame (at_detection lib ex_consts ex_frame st))"
  by (rule fallback_found(1) [OF ex_detect_fallback ex_frame_fields(4) ex_quad_length])

lemma ex_pnp: "pnp_result ex_lib fi st = (True, (1 / 10, 2 / 10, 3 / 10), (10, 20, 300))"
  by (simp add: pnp_result_def Let_def ex_lib_fields)

lemma ex_lib_unsolved_pnp: "\<not> fst (pnp_result ex_lib_unsolved fi st)"
  by (simp add: pnp_result_def Let_def ex_lib_unsolved_def)

lemma ex_onscreen_fields:
  "color ex_onscreen = (640, 480)"
  "roi_projection ex_onscreen = [(90, 100), (90, 200), (210, 200), (210, 100)]"
  by (simp_all add: ex_onscreen_def)

lemma ex_to_int:
  "to_int ex_lib 3000000000 = - 2147483648" "to_int ex_lib (- 3000000000) = - 2147483648"
  "to_int ex_lib 700 = 700" "to_int ex_lib (7 / 2) = 3" "to_int ex_lib (- 7 / 2) = - 3"
  by (simp_all add: to_int_def ex_lib_def)

text \<open>
  With the four points out of the range of \<^verbatim>\<open>int\<close>, every column is the smallest
  \<^verbatim>\<open>int\<close>: the region starts at column 0 and is one column wide.
\<close>

lemma ex_farscreen_region:
  "last_roi (set_roi_from_projection ex_lib ex_farscreen) = mk_Rect 0 100 1 100"
  by (simp add: ex_farscreen_def set_roi_from_projection_def clamp_last_roi_def Let_def
      roi_accumulate_def upt4 mk_Rect_def mat_cols_def mat_rows_def to_int_def ex_lib_def)

section \<open>The pose store\<close>

text \<open>
  C1, as stated: after a successful solve the published pose holds the solver's
  translation, scaled, with the sign of Y inverted, and the stored rotation and
  translation read by \<^verbatim>\<open>getRT\<close> hold the solver's values without a sign change.
  On a frame whose solve returns the translation \<open>(10, 20, 300)\<close>, the published Y is
  \<open>2\<close>, not \<open>- 2\<close>, and the stored translation is \<open>(10, - 20, 300)\<close>: the sign of Y is
  inverted in the stored translation, not in the published pose.
\<close>

theorem pose_sign_counterexample:
  "snd (snd (pnp_result ex_lib ex_frame
        (snd (detect_marker ex_consts ex_frame (at_detection ex_lib ex_consts ex_frame ex_tracker)))))
     = (10, 20, 300)
   \<and> data (iteration ex_lib ex_consts ex_tracker ex_frame) [0, 0, 0, 0, 0, 0] ! TY = 2
   \<and> data (iteration ex_lib ex_consts ex_tracker ex_frame) [0, 0, 0, 0, 0, 0] ! TY \<noteq> - (20 * (1 / 10))
   \<and> snd (getRT (iteration ex_lib ex_consts ex_tracker ex_frame)) = (10, - 20, 300)
   \<and> snd (getRT (iteration ex_lib ex_consts ex_tracker ex_frame)) \<noteq> (10, 20, 300)"
proof -
  have h1: "read_ok ex_frame" by (simp add: ex_frame_fields)
  have len: "length (pose (snd (detect_marker ex_consts ex_frame (at_detection ex_lib ex_consts ex_frame ex_tracker)))) = 6"
    by (simp add: ex_tracker_fields)
  note s = solved_state [OF ex_pnp len, where c = ex_consts]
  have p: "pose (iteration ex_lib ex_consts ex_tracker ex_frame) = [1, 2, 30, 2, - 1, 3]"
    using s(1) ex_detect_found [of ex_lib ex_tracker]
    by (simp add: iteration_read_ok [OF h1] finish_frame_pose_roi ex_lib_fields)
  have rt: "getRT (iteration ex_lib ex_consts ex_tracker ex_frame) = (eye, (10, - 20, 300))"
    using s(2) ex_detect_found [of ex_lib ex_tracker]
    by (simp add: iteration_read_ok [OF h1] finish_frame_rt ex_lib_fields)
  have d: "data (iteration ex_lib ex_consts ex_tracker ex_frame) [0, 0, 0, 0, 0, 0] = [1, 2, 30, 2, - 1, 3]"
    by (simp add: data_copies_pose p)
  show ?thesis
    by (simp add: ex_pnp d rt TY_def)
qed

text \<open>
  C1, amended: for every pass of the loop in which the frame is read, a marker is detected
  and the solve succeeds with rotation vector \<open>rv\<close> and translation \<open>(tx, ty, tz)\<close>, the
  pose read by \<^verbatim>\<open>data\<close> holds the three translation components scaled by \<open>0.1\<close>,
  none of them with its sign changed, and the angles taken from the decomposition of the
  rotation matrix with the pitch negated; the pair read by \<^verbatim>\<open>getRT\<close> holds the rotation
  matrix as computed and the translation unscaled with the sign of Y inverted.
\<close>

theorem solved_cycle_pose:
  assumes "read_ok fi"
    and "fst (detect_marker c fi (at_detection lib c fi st))"
    and "pnp_result lib fi (snd (detect_marker c fi (at_detection lib c fi st))) = (True, rv, (tx, ty, tz))"
    and "length (pose st) = 6" and "length d = 6"
  shows "data (iteration lib c st fi) d ! TX = tx * (1 / 10)
       \<and> data (iteration lib c st fi) d ! TY = ty * (1 / 10)
       \<and> data (iteration lib c st fi) d ! TZ = tz * (1 / 10)
       \<and> data (iteration lib c st fi) d ! Yaw = vec_at (RQDecomp3x3 lib (Rodrigues lib rv)) 1
       \<and> data (iteration lib c st fi) d ! Pitch = - vec_at (RQDecomp3x3 lib (Rodrigues lib rv)) 0
       \<and> data (iteration lib c st fi) d ! Roll = vec_at (RQDecomp3x3 lib (Rodrigues lib rv)) 2
       \<and> getRT (iteration lib c st fi) = (Rodrigues lib rv, (tx, - ty, tz))"
proof -
  let ?d = "detect_marker c fi (at_detection lib c fi st)"
  have len: "length (pose (snd ?d)) = 6"
    using assms(4) by simp
  note s = solved_state [OF assms(3) len, where c = c]
  have p: "pose (iteration lib c st fi) =
     [tx * (1 / 10), ty * (1 / 10), tz * (1 / 10),
      vec_at (RQDecomp3x3 lib (Rodrigues lib rv)) 1,
      - vec_at (RQDecomp3x3 lib (Rodrigues lib rv)) 0,
      vec_at (RQDecomp3x3 lib (Rodrigues lib rv)) 2]"
    using s(1) assms(2) by (simp add: iteration_read_ok [OF assms(1)] finish_frame_pose_roi)
  have rt: "getRT (iteration lib c st fi) = (Rodrigues lib rv, (tx, - ty, tz))"
    using s(2) assms(2) by (simp add: iteration_read_ok [OF assms(1)] finish_frame_rt)
  have "length (pose (iteration lib c st fi)) = 6"
    by (simp add: p)
  from data_copies_pose [OF this assms(5)] have "data (iteration lib c st fi) d = pose (iteration lib c st fi)" .
  with p rt show ?thesis
    by (simp add: TX_def TY_def TZ_def Yaw_def Pitch_def Roll_def)
qed

theorem solved_cycle_pose_witness:
  "read_ok ex_frame
   \<and> fst (detect_marker ex_consts ex_frame (at_detection ex_lib ex_consts ex_frame ex_tracker))
   \<and> pnp_result ex_lib ex_frame
        (snd (detect_marker ex_consts ex_frame (at_detection ex_lib ex_consts ex_frame ex_tracker)))
        = (True, (1 / 10, 2 / 10, 3 / 10), (10, 20, 300))
   \<and> length (pose ex_tracker) = 6
   \<and> data (iteration ex_lib ex_consts ex_tracker ex_frame) [0, 0, 0, 0, 0, 0] ! TX = 1
   \<and> data (iteration ex_lib ex_consts ex_tracker ex_frame) [0, 0, 0, 0, 0, 0] ! TY = 2
   \<and> data (iteration ex_lib ex_consts ex_tracker ex_frame) [0, 0, 0, 0, 0, 0] ! TZ = 30
   \<and> data (iteration ex_lib ex_consts ex_tracker ex_frame) [0, 0, 0, 0, 0, 0] ! Yaw = 2
   \<and> data (iteration ex_lib ex_consts ex_tracker ex_frame) [0, 0, 0, 0, 0, 0] ! Pitch = - 1
   \<and> data (iteration ex_lib ex_consts ex_tracker ex_frame) [0, 0, 0, 0, 0, 0] ! Roll = 3
   \<and> getRT (iteration ex_lib ex_consts ex_tracker ex_frame) = (eye, (10, - 20, 300))"
proof -
  have h1: "read_ok ex_frame" by (simp add: ex_frame_fields)
  have h2: "fst (detect_marker ex_consts ex_frame (at_detection ex_lib ex_consts ex_frame ex_tracker))"
    by (rule ex_detect_found)
  have h3: "pnp_result ex_lib ex_frame
        (snd (detect_marker ex_consts ex_frame (at_detection ex_lib ex_consts ex_frame ex_tracker)))
        = (True, (1 / 10, 2 / 10, 3 / 10), (10, 20, 300))"
    by (rule ex_pnp)
  have h4: "length (pose ex_tracker) = 6" by (simp add: ex_tracker_fields)
  have h5: "length [0, 0, 0, 0, 0, 0 :: real] = 6" by simp
  show ?thesis
    using h1 h2 h3 h4 solved_cycle_pose [OF h1 h2 h3 h4 h5]
    by (simp add: ex_lib_fields)
qed

text \<open>
  C2: in every pass of the loop (with a frame read) in which detection fails, or detection
  succeeds and the solve fails, the pose is the one the previous pass left, so is what
  \<^verbatim>\<open>data\<close> reports, and the stored region is the sentinel \<open>(65535, 65535, 0, 0)\<close>.
\<close>

theorem failed_cycle_keeps_pose:
  assumes "read_ok fi"
    and "\<not> fst (detect_marker c fi (at_detection lib c fi st))
       \<or> \<not> fst (pnp_result lib fi (snd (detect_marker c fi (at_detection lib c fi st))))"
  shows "pose (iteration lib c st fi) = pose st
       \<and> data (iteration lib c st fi) d = data st d
       \<and> last_roi (iteration lib c st fi) = sentinel_roi"
proof -
  let ?d = "detect_marker c fi (at_detection lib c fi st)"
  have it: "iteration lib c st fi = finish_frame lib c fi (at_detection lib c fi st)"
    using assms(1) by (simp add: iteration_def at_detection_def Let_def)
  have pr: "pose (iteration lib c st fi) = pose st
       \<and> last_roi (iteration lib c st fi) = sentinel_roi"
  proof (cases "fst ?d")
    case False
    then show ?thesis
      by (simp add: it finish_frame_pose_roi solve_or_fail_no_marker)
  next
    case True
    with assms(2) have "\<not> fst (pnp_result lib fi (snd ?d))" by simp
    from solve_or_fail_unsolved [OF this] True show ?thesis
      by (simp add: it finish_frame_pose_roi)
  qed
  then have "data (iteration lib c st fi) d = data st d"
    by (simp add: data_def)
  with pr show ?thesis by simp
qed

theorem failed_cycle_keeps_pose_witness:
  "read_ok ex_frame_blank
   \<and> \<not> fst (detect_marker ex_consts ex_frame_blank (at_detection ex_lib ex_consts ex_frame_blank ex_tracking))
   \<and> pose (iteration ex_lib ex_consts ex_tracking ex_frame_blank) = [1, 2, 30, 4, 5, 6]
   \<and> last_roi (iteration ex_lib ex_consts ex_tracking ex_frame_blank) = mk_Rect 65535 65535 0 0
   \<and> read_ok ex_frame
   \<and> fst (detect_marker ex_consts ex_frame (at_detection ex_lib_unsolved ex_consts ex_frame ex_tracking))
   \<and> \<not> fst (pnp_result ex_lib_unsolved ex_frame
          (snd (detect_marker ex_consts ex_frame (at_detection ex_lib_unsolved ex_consts ex_frame ex_tracking))))
   \<and> pose (iteration ex_lib_unsolved ex_consts ex_tracking ex_frame) = [1, 2, 30, 4, 5, 6]
   \<and> last_roi (iteration ex_lib_unsolved ex_consts ex_tracking ex_frame) = mk_Rect 65535 65535 0 0"
proof -
  have h1: "read_ok ex_frame_blank" by (simp add: ex_frame_blank_def ex_frame_fields)
  have d: "detect ex_frame_blank lo hi roi = []" for lo hi roi
    by (simp add: ex_frame_blank_def)
  have h2: "\<not> fst (detect_marker ex_consts ex_frame_blank (at_detection ex_lib ex_consts ex_frame_blank ex_tracking))"
    by (simp add: detect_marker_def Let_def detect_with_roi_cases detect_without_roi_eq
        roi_answer_at_detection d one_quad_def)
  from h2 have h3: "\<not> fst (detect_marker ex_consts ex_frame_blank (at_detection ex_lib ex_consts ex_frame_blank ex_tracking))
       \<or> \<not> fst (pnp_result ex_lib ex_frame_blank (snd (detect_marker ex_consts ex_frame_blank (at_detection ex_lib ex_consts ex_frame_blank ex_tracking))))"
    by simp
  have g1: "read_ok ex_frame" by (simp add: ex_frame_fields)
  have g2: "fst (detect_marker ex_consts ex_frame (at_detection ex_lib_unsolved ex_consts ex_frame ex_tracking))"
    by (rule ex_detect_found)
  have g3: "\<not> fst (pnp_result ex_lib_unsolved ex_frame
          (snd (detect_marker ex_consts ex_frame (at_detection ex_lib_unsolved ex_consts ex_frame ex_tracking))))"
    by (rule ex_lib_unsolved_pnp)
  then have g4: "\<not> fst (detect_marker ex_consts ex_frame (at_detection ex_lib_unsolved ex_consts ex_frame ex_tracking))
     \<or> \<not> fst (pnp_result ex_lib_unsolved ex_frame
          (snd (detect_marker ex_consts ex_frame (at_detection ex_lib_unsolved ex_consts ex_frame ex_tracking))))"
    by simp
  show ?thesis
    using h1 h2 g1 g2 g3 failed_cycle_keeps_pose [OF h1 h3] failed_cycle_keeps_pose [OF g1 g4]
    by (simp add: ex_tracking_fields sentinel_roi_def)
qed

section \<open>The search region\<close>

text \<open>
  C3, as stated: after \<^verbatim>\<open>set_roi_from_projection\<close> the region has width and height
  at least 1, wherever the four points project. On a 640 by 480 frame with all four
  points to the right of the image, the stored region starts at column 639 and has
  width 0.
\<close>

theorem roi_width_counterexample:
  "\<not> 1 \<le> rect_width (last_roi (set_roi_from_projection ex_lib ex_offscreen))"
  by (simp add: ex_offscreen_def set_roi_from_projection_def clamp_last_roi_def Let_def
      roi_accumulate_def upt4 mk_Rect_def mat_cols_def mat_rows_def to_int_def)

text \<open>
  C3, amended: on a frame of at least one column and one row, the region stored by
  \<^verbatim>\<open>set_roi_from_projection\<close> (which ends with \<^verbatim>\<open>clamp_last_roi\<close>) has its origin
  within \<open>[0, cols - 1] \<times> [0, rows - 1]\<close>, ends no later than column \<open>cols - 1\<close> and row
  \<open>rows - 1\<close>, and has width and height at least 0, wherever the four points project.
  On a frame of at least two columns the width is at least 1 exactly when one of the four
  columns \<^verbatim>\<open>int(proj.x)\<close> lies left of \<open>cols - 1\<close> and, besides, one of them lies at or
  left of 0 or two of them differ; likewise for the height, with rows and
  \<^verbatim>\<open>int(proj.y)\<close>. These columns and rows are the values the conversion to the 32-bit
  \<^verbatim>\<open>int\<close> gives: the coordinate without its fraction when that is a 32-bit integer,
  what the platform stores otherwise.
\<close>

theorem roi_in_frame:
  assumes "1 \<le> mat_cols (color st)" and "1 \<le> mat_rows (color st)"
  shows "0 \<le> rect_x (last_roi (set_roi_from_projection lib st))
       \<and> rect_x (last_roi (set_roi_from_projection lib st)) \<le> mat_cols (color st) - 1
       \<and> 0 \<le> rect_y (last_roi (set_roi_from_projection lib st))
       \<and> rect_y (last_roi (set_roi_from_projection lib st)) \<le> mat_rows (color st) - 1
       \<and> rect_x (last_roi (set_roi_from_projection lib st))
           + rect_width (last_roi (set_roi_from_projection lib st)) \<le> mat_cols (color st) - 1
       \<and> rect_y (last_roi (set_roi_from_projection lib st))
           + rect_height (last_roi (set_roi_from_projection lib st)) \<le> mat_rows (color st) - 1
       \<and> 0 \<le> rect_width (last_roi (set_roi_from_projection lib st))
       \<and> 0 \<le> rect_height (last_roi (set_roi_from_projection lib st))
       \<and> (2 \<le> mat_cols (color st) \<longrightarrow>
            (1 \<le> rect_width (last_roi (set_roi_from_projection lib st))
             \<longleftrightarrow> (\<exists>a\<in>proj_xs lib st. a < mat_cols (color st) - 1)
                \<and> ((\<exists>a\<in>proj_xs lib st. a \<le> 0) \<or> (\<exists>a\<in>proj_xs lib st. \<exists>b\<in>proj_xs lib st. a < b))))
       \<and> (2 \<le> mat_rows (color st) \<longrightarrow>
            (1 \<le> rect_height (last_roi (set_roi_from_projection lib st))
             \<longleftrightarrow> (\<exists>a\<in>proj_ys lib st. a < mat_rows (color st) - 1)
                \<and> ((\<exists>a\<in>proj_ys lib st. a \<le> 0) \<or> (\<exists>a\<in>proj_ys lib st. \<exists>b\<in>proj_ys lib st. a < b))))"
proof -
  define r1 where "r1 = foldl (\<lambda>roi i. roi_accumulate lib roi (roi_projection st ! i))
                          (mk_Rect (mat_cols (color st) - 1) (mat_rows (color st) - 1) 0 0) [0 ..< 4]"
  define st1 where "st1 = st\<lparr>last_roi := r1\<rparr>"
  have eq: "set_roi_from_projection lib st = clamp_last_roi st1"
    by (simp add: set_roi_from_projection_def Let_def st1_def r1_def)
  have c: "color st1 = color st" by (simp add: st1_def)
  have ox: "rect_x (last_roi st1) \<le> rect_width (last_roi st1)"
    unfolding st1_def r1_def by (simp add: fold_ordered)
  have oy: "rect_y (last_roi st1) \<le> rect_height (last_roi st1)"
    unfolding st1_def r1_def by (simp add: fold_ordered)
  from assms c have a1: "1 \<le> mat_cols (color st1)" and a2: "1 \<le> mat_rows (color st1)"
    by simp_all
  have bounds: "0 \<le> rect_x (last_roi (set_roi_from_projection lib st))
       \<and> rect_x (last_roi (set_roi_from_projection lib st)) \<le> mat_cols (color st) - 1
       \<and> 0 \<le> rect_y (last_roi (set_roi_from_projection lib st))
       \<and> rect_y (last_roi (set_roi_from_projection lib st)) \<le> mat_rows (color st) - 1
       \<and> rect_x (last_roi (set_roi_from_projection lib st))
           + rect_width (last_roi (set_roi_from_projection lib st)) \<le> mat_cols (color st) - 1
       \<and> rect_y (last_roi (set_roi_from_projection lib st))
           + rect_height (last_roi (set_roi_from_projection lib st)) \<le> mat_rows (color st) - 1
       \<and> 0 \<le> rect_width (last_roi (set_roi_from_projection lib st))
       \<and> 0 \<le> rect_height (last_roi (set_roi_from_projection lib st))"
    unfolding eq using clamp_bounds_x [OF a1 ox] clamp_bounds_y [OF a2 oy] c by simp
  from bounds roi_width_pos_iff [of st lib] roi_height_pos_iff [of st lib] show ?thesis
    by blast
qed

theorem roi_in_frame_witness:
  "1 \<le> mat_cols (color ex_onscreen) \<and> 1 \<le> mat_rows (color ex_onscreen)
   \<and> 2 \<le> mat_cols (color ex_onscreen) \<and> 2 \<le> mat_rows (color ex_onscreen)
   \<and> 0 \<le> rect_x (last_roi (set_roi_from_projection ex_lib ex_onscreen))
   \<and> rect_x (last_roi (set_roi_from_projection ex_lib ex_onscreen))
       + rect_width (last_roi (set_roi_from_projection ex_lib ex_onscreen)) \<le> 639
   \<and> 0 \<le> rect_y (last_roi (set_roi_from_projection ex_lib ex_onscreen))
   \<and> rect_y (last_roi (set_roi_from_projection ex_lib ex_onscreen))
       + rect_height (last_roi (set_roi_from_projection ex_lib ex_onscreen)) \<le> 479
   \<and> 1 \<le> rect_width (last_roi (set_roi_from_projection ex_lib ex_onscreen))
   \<and> 1 \<le> rect_height (last_roi (set_roi_from_projection ex_lib ex_onscreen))
   \<and> last_roi (set_roi_from_projection ex_lib ex_farscreen) = mk_Rect 0 100 1 100"
proof -
  note f = ex_onscreen_fields
  have h1: "1 \<le> mat_cols (color ex_onscreen)" and h2: "1 \<le> mat_rows (color ex_onscreen)"
    and h3: "2 \<le> mat_cols (color ex_onscreen)" and h4: "2 \<le> mat_rows (color ex_onscreen)"
    by (simp_all add: f mat_cols_def mat_rows_def)
  have x0: "90 \<in> proj_xs ex_lib ex_onscreen" and x2: "210 \<in> proj_xs ex_lib ex_onscreen"
    using proj_member(1) [of 0 ex_lib ex_onscreen] proj_member(1) [of 2 ex_lib ex_onscreen]
    by (simp_all add: f to_int_def)
  have y0: "100 \<in> proj_ys ex_lib ex_onscreen" and y2: "200 \<in> proj_ys ex_lib ex_onscreen"
    using proj_member(2) [of 0 ex_lib ex_onscreen] proj_member(2) [of 2 ex_lib ex_onscreen]
    by (simp_all add: f to_int_def)
  have c: "mat_cols (color ex_onscreen) - 1 = 639" "mat_rows (color ex_onscreen) - 1 = 479"
    by (simp_all add: f mat_cols_def mat_rows_def)
  have "(90 :: int) < 639" "(90 :: int) < 210" by simp_all
  with x0 x2 have px: "(\<exists>a\<in>proj_xs ex_lib ex_onscreen. a < mat_cols (color ex_onscreen) - 1)
     \<and> ((\<exists>a\<in>proj_xs ex_lib ex_onscreen. a \<le> 0) \<or> (\<exists>a\<in>proj_xs ex_lib ex_onscreen. \<exists>b\<in>proj_xs ex_lib ex_onscreen. a < b))"
    unfolding c by blast
  have "(100 :: int) < 479" "(100 :: int) < 200" by simp_all
  with y0 y2 have py: "(\<exists>a\<in>proj_ys ex_lib ex_onscreen. a < mat_rows (color ex_onscreen) - 1)
     \<and> ((\<exists>a\<in>proj_ys ex_lib ex_onscreen. a \<le> 0) \<or> (\<exists>a\<in>proj_ys ex_lib ex_onscreen. \<exists>b\<in>proj_ys ex_lib ex_onscreen. a < b))"
    unfolding c by blast
  show ?thesis
    using h1 h2 h3 h4 px py roi_in_frame [OF h1 h2, of ex_lib]
    by (simp add: f mat_cols_def mat_rows_def ex_farscreen_region)
qed

section \<open>The two detection attempts\<close>

text \<open>
  C4: in every pass with a frame read, if the attempt inside the stored region returns
  false (no usable region, or no single quadrilateral found in it) and the detector, run
  on the whole frame with the configured bounds \<open>size_min\<close> and \<open>size_max\<close>, answers
  exactly one marker of exactly four corners, then the detection step returns true with
  that marker stored, the pass goes on to the solve and hands \<open>true\<close> to
  \<^verbatim>\<open>draw_ar\<close>.
\<close>

theorem fallback_reports_marker:
  assumes "read_ok fi"
    and "\<not> fst (detect_with_roi c fi (at_detection lib c fi st))"
    and "detect fi (size_min c) (size_max c) None = [m]" and "length m = 4"
  shows "fst (detect_marker c fi (at_detection lib c fi st))
       \<and> markers (snd (detect_marker c fi (at_detection lib c fi st))) = [m]
       \<and> new_events st (iteration lib c st fi) =
           [CameraRead] @ roi_events c (at_detection lib c fi st)
           @ [SetMinMaxSize (size_min c) (size_max c), DetectFull, SolvePnP, DrawAr True]
           @ (if frame_rows fi > 0 then [UpdateImage] else [])"
proof -
  note f = fallback_found [OF assms(2-4)]
  have "trace (iteration lib c st fi) = trace st @ ([CameraRead] @ roi_events c (at_detection lib c fi st)
           @ [SetMinMaxSize (size_min c) (size_max c), DetectFull, SolvePnP, DrawAr True]
           @ (if frame_rows fi > 0 then [UpdateImage] else []))"
    using assms(2) f(1) by (simp add: iteration_trace [OF assms(1)])
  then have "new_events st (iteration lib c st fi) = [CameraRead] @ roi_events c (at_detection lib c fi st)
           @ [SetMinMaxSize (size_min c) (size_max c), DetectFull, SolvePnP, DrawAr True]
           @ (if frame_rows fi > 0 then [UpdateImage] else [])"
    by (rule new_events_append)
  with f show ?thesis by blast
qed

theorem fallback_reports_marker_witness:
  "read_ok ex_frame
   \<and> \<not> fst (detect_with_roi ex_consts ex_frame (at_detection ex_lib ex_consts ex_frame ex_tracking))
   \<and> detect ex_frame (size_min ex_consts) (size_max ex_consts) None = [ex_quad]
   \<and> length ex_quad = 4
   \<and> fst (detect_marker ex_consts ex_frame (at_detection ex_lib ex_consts ex_frame ex_tracking))
   \<and> DrawAr True \<in> set (new_events ex_tracking (iteration ex_lib ex_consts ex_tracking ex_frame))"
proof -
  have h1: "read_ok ex_frame" by (simp add: ex_frame_fields)
  have h2: "\<not> fst (detect_with_roi ex_consts ex_frame (at_detection ex_lib ex_consts ex_frame ex_tracking))"
    by (simp add: detect_with_roi_cases ex_tracking_usable roi_answer_at_detection
        ex_frame_fields one_quad_def)
  have h3: "detect ex_frame (size_min ex_consts) (size_max ex_consts) None = [ex_quad]"
    by (simp add: ex_frame_fields)
  have h4: "length ex_quad = 4" by (rule ex_quad_length)
  show ?thesis
    using h1 h2 h3 h4 fallback_reports_marker [OF h1 h2 h3 h4] by simp
qed

text \<open>
  C7: whenever the detector runs inside the stored region, which is when the width and the
  height of the region are greater than 1, the two size bounds handed to it (the arguments
  of \<^verbatim>\<open>setMinMaxSize\<close>, in force for the detection that follows) are the configured
  bounds rescaled by the ratio of the width of the frame to the width of the region and
  clamped into \<open>[0.01, 1]\<close>. The two expressions of the code agree with that rescaled and
  clamped bound for every positive width of the region.
\<close>

theorem roi_size_bounds:
  assumes "rect_width (last_roi st) > 1" and "rect_height (last_roi st) > 1"
  shows "new_events st (snd (detect_with_roi c fi st)) =
           [SetMinMaxSize
              (spec_roi_bound (size_min c) (mat_cols (grayscale st)) (rect_width (last_roi st)))
              (spec_roi_bound (size_max c) (mat_cols (grayscale st)) (rect_width (last_roi st))),
            DetectRoi (last_roi st)]
       \<and> roi_answer c fi st =
           detect fi
              (spec_roi_bound (size_min c) (mat_cols (grayscale st)) (rect_width (last_roi st)))
              (spec_roi_bound (size_max c) (mat_cols (grayscale st)) (rect_width (last_roi st)))
              (Some (last_roi st))
       \<and> 1 / 100 \<le> spec_roi_bound (size_min c) (mat_cols (grayscale st)) (rect_width (last_roi st))
       \<and> spec_roi_bound (size_min c) (mat_cols (grayscale st)) (rect_width (last_roi st)) \<le> 1
       \<and> 1 / 100 \<le> spec_roi_bound (size_max c) (mat_cols (grayscale st)) (rect_width (last_roi st))
       \<and> spec_roi_bound (size_max c) (mat_cols (grayscale st)) (rect_width (last_roi st)) \<le> 1
       \<and> (0 < w \<longrightarrow> roi_min_size c cols w = spec_roi_bound (size_min c) cols w
                    \<and> roi_max_size c cols w = spec_roi_bound (size_max c) cols w)"
proof -
  from assms have u: "roi_usable st" by (simp add: roi_usable_def)
  have "trace (snd (detect_with_roi c fi st)) = trace st @ roi_events c st"
    by (rule detect_with_roi_trace)
  then have "new_events st (snd (detect_with_roi c fi st)) = roi_events c st"
    by simp
  with u have ev: "new_events st (snd (detect_with_roi c fi st)) =
           [SetMinMaxSize
              (spec_roi_bound (size_min c) (mat_cols (grayscale st)) (rect_width (last_roi st)))
              (spec_roi_bound (size_max c) (mat_cols (grayscale st)) (rect_width (last_roi st))),
            DetectRoi (last_roi st)]"
    by (simp add: roi_events_def roi_min_size_spec roi_max_size_spec)
  have an: "roi_answer c fi st =
           detect fi
              (spec_roi_bound (size_min c) (mat_cols (grayscale st)) (rect_width (last_roi st)))
              (spec_roi_bound (size_max c) (mat_cols (grayscale st)) (rect_width (last_roi st)))
              (Some (last_roi st))"
    by (simp add: roi_answer_def roi_min_size_spec roi_max_size_spec)
  from ev an spec_roi_bound_range roi_min_size_spec roi_max_size_spec show ?thesis
    by blast
qed

theorem roi_size_bounds_witness:
  "rect_width (last_roi ex_tracking) > 1 \<and> rect_height (last_roi ex_tracking) > 1
   \<and> new_events ex_tracking (snd (detect_with_roi ex_consts ex_frame ex_tracking))
       = [SetMinMaxSize (4 / 15) 1, DetectRoi (mk_Rect 90 90 120 120)]"
proof -
  have h1: "rect_width (last_roi ex_tracking) > 1" and h2: "rect_height (last_roi ex_tracking) > 1"
    by (simp_all add: ex_tracking_fields mk_Rect_def)
  have b: "spec_roi_bound (size_min ex_consts) (mat_cols (grayscale ex_tracking)) (rect_width (last_roi ex_tracking)) = 4 / 15"
    "spec_roi_bound (size_max ex_consts) (mat_cols (grayscale ex_tracking)) (rect_width (last_roi ex_tracking)) = 1"
    by (simp_all add: spec_roi_bound_def spec_clamp_def ex_consts_def ex_tracking_fields
        mat_cols_def mk_Rect_def)
  note t = roi_size_bounds [OF h1 h2, of ex_consts ex_frame 1 640, unfolded b]
  show ?thesis
    using h1 h2 t by (simp add: ex_tracking_fields)
qed

text \<open>
  C9: \<^verbatim>\<open>detect_with_roi\<close> runs the detector inside the stored region exactly when the
  region has width and height greater than 1. When it returns false, the stored region is
  the sentinel \<open>(65535, 65535, 0, 0)\<close>, and that is the state in which the detection on
  the whole frame runs. When it returns true, the region is kept, the detector answered one
  marker of four corners, and the stored marker is that one with the origin of the region
  added to every corner.
\<close>

theorem detect_with_roi_attempt:
  "new_events st (snd (detect_with_roi c fi st)) =
     (if rect_width (last_roi st) > 1 \<and> rect_height (last_roi st) > 1
      then [SetMinMaxSize (roi_min_size c (mat_cols (grayscale st)) (rect_width (last_roi st)))
                          (roi_max_size c (mat_cols (grayscale st)) (rect_width (last_roi st))),
            DetectRoi (last_roi st)]
      else [])
   \<and> (\<not> fst (detect_with_roi c fi st) \<longrightarrow>
        last_roi (snd (detect_with_roi c fi st)) = sentinel_roi
      \<and> detect_marker c fi st = detect_without_roi c fi (snd (detect_with_roi c fi st)))
   \<and> (fst (detect_with_roi c fi st) \<longrightarrow>
        rect_width (last_roi st) > 1 \<and> rect_height (last_roi st) > 1
      \<and> last_roi (snd (detect_with_roi c fi st)) = last_roi st
      \<and> (\<exists>m. roi_answer c fi st = [m] \<and> length m = 4
             \<and> markers (snd (detect_with_roi c fi st)) =
                 [map (\<lambda>p. (fst p + of_int (rect_x (last_roi st)),
                             snd p + of_int (rect_y (last_roi st)))) m]))"
proof (intro conjI impI)
  show "new_events st (snd (detect_with_roi c fi st)) =
     (if rect_width (last_roi st) > 1 \<and> rect_height (last_roi st) > 1
      then [SetMinMaxSize (roi_min_size c (mat_cols (grayscale st)) (rect_width (last_roi st)))
                          (roi_max_size c (mat_cols (grayscale st)) (rect_width (last_roi st))),
            DetectRoi (last_roi st)]
      else [])"
    using detect_with_roi_trace [of c fi st]
    by (simp add: roi_events_def roi_usable_def del: new_events_append) (simp add: new_events_def)
next
  assume "\<not> fst (detect_with_roi c fi st)"
  then show "last_roi (snd (detect_with_roi c fi st)) = sentinel_roi"
    by (rule detect_with_roi_fail_roi)
next
  assume "\<not> fst (detect_with_roi c fi st)"
  then show "detect_marker c fi st = detect_without_roi c fi (snd (detect_with_roi c fi st))"
    by (simp add: detect_marker_def Let_def)
next
  assume ok: "fst (detect_with_roi c fi st)"
  then have u: "roi_usable st" and q: "one_quad (roi_answer c fi st)"
    by (simp_all add: detect_with_roi_cases split: if_splits)
  from u show "rect_width (last_roi st) > 1" "rect_height (last_roi st) > 1"
    by (simp_all add: roi_usable_def)
  from u q show "last_roi (snd (detect_with_roi c fi st)) = last_roi st"
    by (simp add: detect_with_roi_cases)
  from q obtain m where m: "roi_answer c fi st = [m]" "length m = 4"
    by (auto simp: one_quad_single)
  have "markers (snd (detect_with_roi c fi st)) = [map (offset_corner (last_roi st)) m]"
    using u q m by (simp add: detect_with_roi_cases offset_marker_map)
  then have "markers (snd (detect_with_roi c fi st)) =
                 [map (\<lambda>p. (fst p + of_int (rect_x (last_roi st)),
                             snd p + of_int (rect_y (last_roi st)))) m]"
    by (simp add: offset_corner_def [abs_def])
  with m show "\<exists>m. roi_answer c fi st = [m] \<and> length m = 4
             \<and> markers (snd (detect_with_roi c fi st)) =
                 [map (\<lambda>p. (fst p + of_int (rect_x (last_roi st)),
                             snd p + of_int (rect_y (last_roi st)))) m]"
    by blast
qed

theorem detect_with_roi_attempt_witness:
  "fst (detect_with_roi ex_consts ex_frame_roi ex_tracking)
   \<and> markers (snd (detect_with_roi ex_consts ex_frame_roi ex_tracking))
       = [[(100, 100), (150, 100), (150, 150), (100, 150)]]
   \<and> \<not> fst (detect_with_roi ex_consts ex_frame ex_tracking)
   \<and> last_roi (snd (detect_with_roi ex_consts ex_frame ex_tracking)) = mk_Rect 65535 65535 0 0
   \<and> new_events ex_tracker (snd (detect_with_roi ex_consts ex_frame ex_tracker)) = []"
proof -
  have ok: "fst (detect_with_roi ex_consts ex_frame_roi ex_tracking)"
    by (simp add: detect_with_roi_cases ex_tracking_usable roi_answer_def ex_frame_roi_fields
        one_quad_def)
  have a: "roi_answer ex_consts ex_frame_roi ex_tracking = [[(10, 10), (60, 10), (60, 60), (10, 60)]]"
    by (simp add: roi_answer_def ex_frame_roi_fields)
  have no: "\<not> fst (detect_with_roi ex_consts ex_frame ex_tracking)"
    by (simp add: detect_with_roi_cases ex_tracking_usable roi_answer_def ex_frame_fields
        one_quad_def)
  have r: "last_roi ex_tracker = mk_Rect 65535 65535 0 0" "last_roi ex_tracking = mk_Rect 90 90 120 120"
    by (simp_all add: ex_tracker_fields ex_tracking_fields sentinel_roi_def)
  show ?thesis
    using ok no detect_with_roi_attempt [of ex_tracking ex_consts ex_frame_roi]
      detect_with_roi_attempt [of ex_tracking ex_consts ex_frame]
      detect_with_roi_attempt [of ex_tracker ex_consts ex_frame]
    by (auto simp: a r sentinel_roi_def mk_Rect_def)
qed

section \<open>The calibration dialog, the frame rate and the camera\<close>

text \<open>
  C5: when the timer is not active, \<^verbatim>\<open>toggleCalibrate\<close> sets the three components of
  the head position to zero, resets the calibrator and leaves the timer active; a tick of
  the timer's slot before that changes nothing, so no sample precedes the reset. When the
  timer is active, \<^verbatim>\<open>cleanupCalib\<close> stops it, and \<^verbatim>\<open>toggleCalibrate\<close> leaves it
  stopped and writes the three components of the calibrator's estimate into the head
  position.
\<close>

theorem toggleCalibrate_transitions:
  "(\<not> calib_timer_active d \<longrightarrow>
       headpos_x (dlg_s (toggleCalibrate ops d)) = 0
     \<and> headpos_y (dlg_s (toggleCalibrate ops d)) = 0
     \<and> headpos_z (dlg_s (toggleCalibrate ops d)) = 0
     \<and> calibrator (toggleCalibrate ops d) = calib_reset ops (calibrator d)
     \<and> calib_timer_active (toggleCalibrate ops d)
     \<and> update_tracker_calibration ops d = d)
   \<and> (calib_timer_active d \<longrightarrow>
       \<not> calib_timer_active (cleanupCalib d)
     \<and> \<not> calib_timer_active (toggleCalibrate ops d)
     \<and> headpos_x (dlg_s (toggleCalibrate ops d)) = vec_at (calib_get_estimate ops (calibrator d)) 0
     \<and> headpos_y (dlg_s (toggleCalibrate ops d)) = vec_at (calib_get_estimate ops (calibrator d)) 1
     \<and> headpos_z (dlg_s (toggleCalibrate ops d)) = vec_at (calib_get_estimate ops (calibrator d)) 2
     \<and> calibrator (toggleCalibrate ops d) = calibrator d)"
  by (simp add: toggleCalibrate_def cleanupCalib_def update_tracker_calibration_def Let_def
      split: option.splits)

theorem toggleCalibrate_transitions_witness:
  "\<not> calib_timer_active ex_dialog_idle
   \<and> headpos_x (dlg_s (toggleCalibrate ex_ops ex_dialog_idle)) = 0
   \<and> headpos_y (dlg_s (toggleCalibrate ex_ops ex_dialog_idle)) = 0
   \<and> headpos_z (dlg_s (toggleCalibrate ex_ops ex_dialog_idle)) = 0
   \<and> calibrator (toggleCalibrate ex_ops ex_dialog_idle) = []
   \<and> calib_timer_active (toggleCalibrate ex_ops ex_dialog_idle)
   \<and> calib_timer_active ex_dialog_calibrating
   \<and> \<not> calib_timer_active (toggleCalibrate ex_ops ex_dialog_calibrating)
   \<and> headpos_x (dlg_s (toggleCalibrate ex_ops ex_dialog_calibrating)) = 5
   \<and> headpos_y (dlg_s (toggleCalibrate ex_ops ex_dialog_calibrating)) = 10
   \<and> headpos_z (dlg_s (toggleCalibrate ex_ops ex_dialog_calibrating)) = - 3"
proof -
  have i: "\<not> calib_timer_active ex_dialog_idle" "calibrator ex_dialog_idle = [(9, 9, 9)]"
    by (simp_all add: ex_dialog_idle_def)
  have a: "calib_timer_active ex_dialog_calibrating" "calibrator ex_dialog_calibrating = [(5, 10, - 3)]"
    by (simp_all add: ex_dialog_calibrating_def)
  have o: "calib_reset ex_ops acc = []" "calib_get_estimate ex_ops [(5, 10, - 3)] = (5, 10, - 3)" for acc
    by (simp_all add: ex_ops_def)
  show ?thesis
    using i a toggleCalibrate_transitions [of ex_dialog_idle ex_ops]
      toggleCalibrate_transitions [of ex_dialog_calibrating ex_ops]
    by (simp add: o)
qed

text \<open>
  C6: with \<open>dt\<close> the measured interval and \<open>alpha = dt / (dt + RC)\<close>, an update with
  \<open>dt\<close> above \<open>0.001\<close> seconds makes the estimate
  \<open>fps * (1 - alpha) + alpha * (1 / dt + 0.8)\<close>; an update with \<open>dt\<close> at or below that
  threshold changes nothing.
\<close>

theorem update_fps_average:
  assumes "dt = elapsed_seconds fi" and "alpha = dt / (dt + RC c)"
  shows "(1 / 1000 < dt \<longrightarrow>
            fps (update_fps c fi st) = fps st * (1 - alpha) + alpha * (1 / dt + 8 / 10))
       \<and> (dt \<le> 1 / 1000 \<longrightarrow> update_fps c fi st = st)"
  using assms by (simp add: update_fps_def Let_def)

theorem update_fps_average_witness:
  "(1 / 1000 :: real) < 1 / 60
   \<and> fps (update_fps ex_consts ex_frame ex_tracker) = 0 * (1 - 4 / 64) + 4 / 64 * (60 + 8 / 10)
   \<and> (0 :: real) \<le> 1 / 1000
   \<and> update_fps ex_consts (ex_frame\<lparr>elapsed_seconds := 0\<rparr>) ex_tracker = ex_tracker"
proof -
  have e: "elapsed_seconds ex_frame = 1 / 60" "RC ex_consts = 1 / 4"
    by (simp_all add: ex_frame_def ex_consts_def)
  have f: "fps ex_tracker = 0"
    by (simp add: ex_tracker_def start_tracker_def new_aruco_tracker_def)
  have a: "(1 / 60 :: real) / (1 / 60 + 1 / 4) = 4 / 64" by simp
  show ?thesis
    using update_fps_average [OF e(1) [symmetric] refl, of ex_consts ex_tracker]
      update_fps_average [OF refl refl, of "ex_frame\<lparr>elapsed_seconds := 0\<rparr>" ex_consts ex_tracker]
    by (simp add: e f)
qed

text \<open>
  C8: when \<^verbatim>\<open>open_camera\<close> returns false, \<^verbatim>\<open>run\<close> makes no pass of the loop,
  whatever frames would have come: no read, no detection and no solve is recorded, and the
  pose and the stored region are the ones before the call. The pose of a tracker just
  started is all zero.
\<close>

theorem run_camera_not_opened:
  assumes "\<not> fst (open_camera s is_opened st)"
  shows "new_events st (run lib c s is_opened frames st) = []
       \<and> pose (run lib c s is_opened frames st) = pose st
       \<and> last_roi (run lib c s is_opened frames st) = last_roi st
       \<and> pose (start_tracker (new_aruco_tracker p0)) = [0, 0, 0, 0, 0, 0]"
  using assms
  by (simp add: run_def Let_def open_camera_sel start_tracker_pose new_events_def)

theorem run_camera_not_opened_witness:
  "\<not> fst (open_camera ex_settings False ex_tracker)
   \<and> new_events ex_tracker (run ex_lib ex_consts ex_settings False [ex_frame, ex_frame_blank] ex_tracker) = []
   \<and> pose (run ex_lib ex_consts ex_settings False [ex_frame, ex_frame_blank] ex_tracker) = [0, 0, 0, 0, 0, 0]"
proof -
  have h: "\<not> fst (open_camera ex_settings False ex_tracker)"
    by (simp add: open_camera_sel)
  have st: "ex_tracker = start_tracker (new_aruco_tracker (\<lambda>i. 7))"
    by (rule ex_tracker_def)
  from h run_camera_not_opened [OF h, of ex_lib ex_consts "[ex_frame, ex_frame_blank]" "\<lambda>i. 7"]
  show ?thesis unfolding st by simp
qed

end
